theory Spec2Isabelle
  imports Main "HOL-Library.Multiset"
begin

section \<open>Python values and exceptions\<close>

text \<open>
  The module \<^verbatim>\<open>subaligner/trainer.py\<close> defines the class \<^verbatim>\<open>Trainer\<close>. Its methods
  raise and catch Python exceptions; every raise is a value \<open>Inl e\<close> of the result
  type \<open>exn + 'a\<close>. \<open>UnsupportedFormatException\<close> and \<open>TerminalException\<close> are the
  two classes the module imports from \<^verbatim>\<open>.exception\<close>; \<open>OtherException\<close> stands for
  any further subclass of \<^verbatim>\<open>Exception\<close> a collaborator may raise.
\<close>

datatype exn =
    UnsupportedFormatException
  | TerminalException
  | NotImplementedError
  | UnboundLocalError
  | ValueError
  | IndexError
  | TypeError
  | KeyError
  | OSError
  | AttributeError
  | OtherException

section \<open>Construction of a Trainer and attribute access\<close>

text \<open>
  An instance is its attribute dictionary. The names a class body binds are the class
  namespace; private names (two leading underscores, no two trailing ones) are stored
  mangled with the class name. The body of \<^verbatim>\<open>class Trainer\<close> binds the two class
  constants and the six methods below; the class statement itself adds the last five
  names.
\<close>

type_synonym 'v pyobject = "string \<rightharpoonup> 'v"

definition Trainer_namespace :: "string list" where
  "Trainer_namespace =
    [''_Trainer__LOGGER'', ''_Trainer__MAX_BYTES'', ''__init__'', ''train'',
     ''_Trainer__extract_data_and_label_from_avs'', ''_Trainer__extract_in_multithreads'',
     ''_Trainer__convert_to_pb_model'', ''_Trainer__create_saved_model'',
     ''__module__'', ''__qualname__'', ''__doc__'', ''__dict__'', ''__weakref__'']"

text \<open>
  \<^verbatim>\<open>__init__\<close> stores the embedder under the mangled name and then executes two
  \<^verbatim>\<open>def\<close> statements. A \<^verbatim>\<open>def\<close> inside a function body binds a local variable of
  that call: the second component lists the locals of \<^verbatim>\<open>__init__\<close> that hold the two
  functions when it returns. Neither the instance nor the class receives them.
\<close>

definition Trainer_init :: "'v \<Rightarrow> 'v pyobject \<times> string list" where
  "Trainer_init feature_embedder =
    ([''_Trainer__feature_embedder'' \<mapsto> feature_embedder],
     [''__setattr__'', ''__delattr__''])"

text \<open>
  \<^verbatim>\<open>obj.name = v\<close> calls \<^verbatim>\<open>type(obj).__setattr__\<close>: the hook of the class when its
  namespace binds one (the only such hook written in the module raises
  \<^verbatim>\<open>NotImplementedError\<close>), and \<^verbatim>\<open>object.__setattr__\<close> otherwise, which stores into the
  instance dictionary. \<^verbatim>\<open>del obj.name\<close> is the same with \<^verbatim>\<open>__delattr__\<close>; the
  inherited one raises \<^verbatim>\<open>AttributeError\<close> for a name the instance does not hold.
\<close>

definition py_setattr :: "string list \<Rightarrow> 'v pyobject \<Rightarrow> string \<Rightarrow> 'v \<Rightarrow> exn + 'v pyobject" where
  "py_setattr namespace obj name v =
    (if ''__setattr__'' \<in> set namespace then Inl NotImplementedError
     else Inr (obj(name \<mapsto> v)))"

definition py_delattr :: "string list \<Rightarrow> 'v pyobject \<Rightarrow> string \<Rightarrow> exn + 'v pyobject" where
  "py_delattr namespace obj name =
    (if ''__delattr__'' \<in> set namespace then Inl NotImplementedError
     else if obj name = None then Inl AttributeError
     else Inr (obj(name := None)))"

section \<open>Source selection in train\<close>

text \<open>
  \<^verbatim>\<open>train\<close> receives each path list as a list or as \<^verbatim>\<open>None\<close>. Line 76 reads
  \<^verbatim>\<open>if av_file_paths is None or subtitle_file_paths is None:\<close>; the true branch opens
  the dump, the false branch extracts.
\<close>

datatype source = ResumeFromDump | FreshExtraction

definition decide_source :: "string list option \<Rightarrow> string list option \<Rightarrow> source" where
  "decide_source av_file_paths subtitle_file_paths =
    (if av_file_paths = None \<or> subtitle_file_paths = None then ResumeFromDump
     else FreshExtraction)"

section \<open>The worker count\<close>

text \<open>
  Line 173: \<^verbatim>\<open>max_workers = int(os.getenv("MAX_WORKERS", mp.cpu_count() / 2))\<close>.
  \<^verbatim>\<open>os.getenv\<close> returns the variable's string when it is set and the default, the
  float \<^verbatim>\<open>cpu_count() / 2\<close>, otherwise. What the builtin \<^verbatim>\<open>int\<close> makes of a string (the
  integer it reads, or \<^verbatim>\<open>ValueError\<close>) is not computed here: it is the function \<open>py_int\<close>
  of the machine. \<^verbatim>\<open>int\<close> of a float truncates, and for a processor count \<open>n\<close> the float
  \<open>n / 2\<close> is exact, so the default is \<open>n div 2\<close>.
\<close>

text \<open>What the module reads of the machine it runs on: the environment variable, the
  builtin \<^verbatim>\<open>int\<close> on strings and the processor count of line 173, and the paths at which a
  file can be created.\<close>

record host =
  MAX_WORKERS :: "string option"
  py_int :: "string \<Rightarrow> exn + int"
  cpu_count :: nat
  creatable :: "string \<Rightarrow> bool"

definition max_workers :: "host \<Rightarrow> exn + int" where
  "max_workers h =
    (case MAX_WORKERS h of
       Some s \<Rightarrow> py_int h s
     | None \<Rightarrow> Inr (int (cpu_count h div 2)))"

text \<open>\<^verbatim>\<open>ThreadPoolExecutor(max_workers=n)\<close> raises \<^verbatim>\<open>ValueError\<close> unless \<open>n > 0\<close>;
  the pool then runs at most \<open>n\<close> threads.\<close>

definition ThreadPoolExecutor :: "int \<Rightarrow> exn + nat" where
  "ThreadPoolExecutor n = (if n \<le> 0 then Inl ValueError else Inr (nat n))"

definition pool_workers :: "host \<Rightarrow> exn + nat" where
  "pool_workers h =
    (case max_workers h of Inl e \<Rightarrow> Inl e | Inr n \<Rightarrow> ThreadPoolExecutor n)"

section \<open>Arrays\<close>

text \<open>
  A NumPy array is its shape and its elements in row-major order. The trainer only works
  along the first axis: \<open>row a i\<close> is the flattened sub-array \<^verbatim>\<open>a[i]\<close>. An array of the
  library always holds as many elements as its shape says (\<open>well_formed\<close>).
\<close>

record 'a ndarray =
  shape :: "nat list"
  flat :: "'a list"

definition well_formed :: "'a ndarray \<Rightarrow> bool" where
  "well_formed a = (length (flat a) = prod_list (shape a))"

definition row_size :: "'a ndarray \<Rightarrow> nat" where
  "row_size a = prod_list (tl (shape a))"

definition row :: "'a ndarray \<Rightarrow> nat \<Rightarrow> 'a list" where
  "row a i = take (row_size a) (drop (i * row_size a) (flat a))"

definition item :: "'a ndarray \<Rightarrow> nat \<Rightarrow> 'a ndarray" where
  "item a i = \<lparr>shape = tl (shape a), flat = row a i\<rparr>"

text \<open>\<^verbatim>\<open>len(a)\<close>: the first dimension; \<^verbatim>\<open>TypeError\<close> for a zero-dimensional array.\<close>

definition py_len :: "'a ndarray \<Rightarrow> exn + nat" where
  "py_len a = (case shape a of [] \<Rightarrow> Inl TypeError | n # s \<Rightarrow> Inr n)"

text \<open>\<^verbatim>\<open>for val in a\<close>: the sub-arrays along the first axis, in order.\<close>

definition items :: "'a ndarray \<Rightarrow> exn + 'a ndarray list" where
  "items a = (case shape a of [] \<Rightarrow> Inl TypeError | n # s \<Rightarrow> Inr (map (item a) [0..<n]))"

text \<open>\<^verbatim>\<open>t[k]\<close> on the shape tuple.\<close>

definition tuple_get :: "nat list \<Rightarrow> nat \<Rightarrow> exn + nat" where
  "tuple_get t k = (if k < length t then Inr (t ! k) else Inl IndexError)"

text \<open>
  \<^verbatim>\<open>np.concatenate(arrays)\<close> joins along the first axis. It raises \<^verbatim>\<open>ValueError\<close> for an
  empty sequence ("need at least one array to concatenate"), for a zero-dimensional array,
  and when the arrays do not agree in every dimension but the first.
\<close>

definition np_concatenate :: "'a ndarray list \<Rightarrow> exn + 'a ndarray" where
  "np_concatenate arrays =
    (case arrays of
       [] \<Rightarrow> Inl ValueError
     | a # _ \<Rightarrow>
         if list_ex (\<lambda>b. shape b = []) arrays then Inl ValueError
         else if list_ex (\<lambda>b. tl (shape b) \<noteq> tl (shape a)) arrays then Inl ValueError
         else Inr \<lparr>shape = sum_list (map (\<lambda>b. hd (shape b)) arrays) # tl (shape a),
                   flat = concat (map flat arrays)\<rparr>)"

text \<open>
  \<^verbatim>\<open>a[idx]\<close> with an integer array \<open>idx\<close> selects the sub-arrays \<^verbatim>\<open>a[idx[0]], a[idx[1]], ...\<close>
  into a new array; an index outside the first dimension raises \<^verbatim>\<open>IndexError\<close>.
\<close>

definition take_rows :: "'a ndarray \<Rightarrow> nat list \<Rightarrow> exn + 'a ndarray" where
  "take_rows a idx =
    (case shape a of
       [] \<Rightarrow> Inl IndexError
     | n # s \<Rightarrow>
         if list_ex (\<lambda>i. n \<le> i) idx then Inl IndexError
         else Inr \<lparr>shape = length idx # s, flat = concat (map (row a) idx)\<rparr>)"

text \<open>
  \<^verbatim>\<open>np.rot90(m=val, k=1, axes=(0, 1))\<close> is \<^verbatim>\<open>transpose(flip(m, 1), (1, 0, 2, ...))\<close>: for
  \<open>m\<close> of shape \<open>(a, b, ...)\<close> the result has shape \<open>(b, a, ...)\<close> and
  \<^verbatim>\<open>result[i, j] = m[j, b - 1 - i]\<close>. Fewer than two dimensions raise \<^verbatim>\<open>ValueError\<close>.
  \<open>block m j c\<close> is the flattened \<^verbatim>\<open>m[j, c]\<close>.
\<close>

definition block :: "'a ndarray \<Rightarrow> nat \<Rightarrow> nat \<Rightarrow> 'a list" where
  "block m j c =
    (let b = shape m ! 1; q = prod_list (drop 2 (shape m))
     in take q (drop ((j * b + c) * q) (flat m)))"

definition np_rot90 :: "'a ndarray \<Rightarrow> exn + 'a ndarray" where
  "np_rot90 m =
    (case shape m of
       a # b # rest \<Rightarrow>
         Inr \<lparr>shape = b # a # rest,
              flat = concat (map (\<lambda>i. concat (map (\<lambda>j. block m j (b - 1 - i)) [0..<a])) [0..<b])\<rparr>
     | _ \<Rightarrow> Inl ValueError)"

text \<open>\<^verbatim>\<open>np.array(vals)\<close> of a list of arrays of one shape stacks them along a new first
  axis; of the empty list it is the empty one-dimensional array.\<close>

definition np_array :: "'a ndarray list \<Rightarrow> 'a ndarray" where
  "np_array vals =
    (case vals of
       [] \<Rightarrow> \<lparr>shape = [0], flat = []\<rparr>
     | v # _ \<Rightarrow> \<lparr>shape = length vals # shape v, flat = concat (map flat vals)\<rparr>)"

text \<open>
  The arithmetic on elements is floating point and is not computed here: the mean of a
  list of elements and the difference of two elements are the two functions of
  \<open>'a numeric\<close>, together with the permutation \<^verbatim>\<open>np.random.permutation\<close> draws for a
  given length. \<^verbatim>\<open>a - np.mean(a, axis=0)\<close> subtracts from every sub-array \<^verbatim>\<open>a[i]\<close> the
  element-wise mean of all of them; the shape stays.
\<close>

record 'a numeric =
  mean :: "'a list \<Rightarrow> 'a"
  subtract :: "'a \<Rightarrow> 'a \<Rightarrow> 'a"
  permutation :: "nat \<Rightarrow> nat list"

definition np_mean0 :: "'a numeric \<Rightarrow> 'a ndarray \<Rightarrow> exn + 'a ndarray" where
  "np_mean0 f a =
    (case shape a of
       [] \<Rightarrow> Inl ValueError
     | n # s \<Rightarrow>
         Inr \<lparr>shape = s,
              flat = map (\<lambda>j. mean f (map (\<lambda>i. row a i ! j) [0..<n])) [0..<prod_list s]\<rparr>)"

definition subtract_rows :: "'a numeric \<Rightarrow> 'a ndarray \<Rightarrow> 'a ndarray \<Rightarrow> 'a ndarray" where
  "subtract_rows f a m =
    \<lparr>shape = shape a,
     flat = concat (map (\<lambda>i. map2 (subtract f) (row a i) (flat m)) [0..<hd (shape a)])\<rparr>"

definition center :: "'a numeric \<Rightarrow> 'a ndarray \<Rightarrow> exn + 'a ndarray" where
  "center f a = (case np_mean0 f a of Inl e \<Rightarrow> Inl e | Inr m \<Rightarrow> Inr (subtract_rows f a m))"

section \<open>Logging\<close>

text \<open>
  A log record is its level and which of the module's messages it is, with the values
  the message is formatted from. Durations and stack traces are not kept.
\<close>

datatype level = DEBUG | INFO | ERROR

datatype 'v message =
    AudioExtracted
  | ExceptionStacktrace exn
  | UnexpectedException exn
  | AudioSubtitle string string
  | ExtractionNotDone string string
  | DataAndLabelsExtracted
  | ResumeTrainingOnDataDump
  | InputShape nat nat
  | ValLoss 'v
  | ValAcc 'v
  | TotalTrainingTime

type_synonym 'v log = "(level \<times> 'v message) list"

section \<open>One extraction task\<close>

text \<open>
  \<^verbatim>\<open>os.path.splitext\<close> splits at the last dot of the last path component, unless that
  component has no character but dots before it. \<open>rfind\<close> is \<^verbatim>\<open>str.rfind\<close> for one
  character: the last position, or \<open>-1\<close>.
\<close>

fun rfind :: "string \<Rightarrow> char \<Rightarrow> int" where
  "rfind [] c = - 1"
| "rfind (x # xs) c =
    (let r = rfind xs c in if 0 \<le> r then r + 1 else if x = c then 0 else - 1)"

definition splitext :: "string \<Rightarrow> string \<times> string" where
  "splitext p =
    (let sepIndex = rfind p CHR ''/''; dotIndex = rfind p CHR ''.''
     in if sepIndex < dotIndex \<and>
           list_ex (\<lambda>c. c \<noteq> CHR ''.'')
             (take (nat (dotIndex - (sepIndex + 1))) (drop (nat (sepIndex + 1)) p))
        then (take (nat dotIndex) p, drop (nat dotIndex) p)
        else (p, []))"

text \<open>
  What a task calls outside the module: the list \<^verbatim>\<open>MediaHelper.AUDIO_FILE_EXTENSION\<close>,
  \<^verbatim>\<open>MediaHelper.extract_audio(av_file_path, True, 16000)\<close> and the embedder's
  \<^verbatim>\<open>extract_data_and_label_from_audio(audio, subtitle, subtitles=None,
  ignore_sound_effects=True)\<close>. Each call returns or raises.
\<close>

record 'a media =
  AUDIO_FILE_EXTENSION :: "string list"
  extract_audio :: "string \<Rightarrow> exn + string"
  extract_data_and_label_from_audio :: "string \<Rightarrow> string \<Rightarrow> exn + 'a ndarray \<times> 'a ndarray"

text \<open>
  The state the tasks share: the two pre-allocated lists of slots (\<open>None\<close> is Python's
  \<^verbatim>\<open>None\<close>) and the logger's output.
\<close>

record ('a, 'v) shared =
  train_data_slots :: "'a ndarray option list"
  labels_slots :: "'a ndarray option list"
  logged :: "'v log"

definition emit :: "level \<Rightarrow> 'v message \<Rightarrow> ('a, 'v) shared \<Rightarrow> ('a, 'v) shared" where
  "emit l m s = s\<lparr>logged := logged s @ [(l, m)]\<rparr>"

text \<open>\<^verbatim>\<open>xs[i] = v\<close> on a list.\<close>

definition list_store :: "'b list \<Rightarrow> nat \<Rightarrow> 'b \<Rightarrow> exn + 'b list" where
  "list_store xs i v = (if i < length xs then Inr (xs[i := v]) else Inl IndexError)"

text \<open>
  Lines 224 to 242, the body of the \<^verbatim>\<open>try\<close>. The first component is the local
  variable \<^verbatim>\<open>audio_file_path\<close> when the body ends: \<open>None\<close> while no assignment to it
  has been executed. The second is what the body raised, or the embedder's pair. The
  third is what the body logged.
\<close>

definition try_body ::
  "'a media \<Rightarrow> string \<Rightarrow> string \<Rightarrow>
   string option \<times> (exn + 'a ndarray \<times> 'a ndarray) \<times> 'v log" where
  "try_body c av_file_path subtitle_file_path =
    (let (file_name, file_ext) = splitext av_file_path
     in if file_ext \<notin> set (AUDIO_FILE_EXTENSION c) then
          (case extract_audio c av_file_path of
             Inl e \<Rightarrow> (None, Inl e, [])
           | Inr audio_file_path \<Rightarrow>
               (Some audio_file_path,
                extract_data_and_label_from_audio c audio_file_path subtitle_file_path,
                [(DEBUG, AudioExtracted)]))
        else
          (Some av_file_path,
           extract_data_and_label_from_audio c av_file_path subtitle_file_path, []))"

text \<open>
  Lines 250 to 254 and 261 to 265, and the \<^verbatim>\<open>return\<close> of line 269 after them: the
  handler formats \<^verbatim>\<open>audio_file_path\<close>. Reading a local variable that was never
  assigned raises \<^verbatim>\<open>UnboundLocalError\<close>; raised inside a handler, it leaves the function.
\<close>

definition log_paths ::
  "string option \<Rightarrow> string \<Rightarrow> ('a, 'v) shared \<Rightarrow> (exn + string \<times> string) \<times> ('a, 'v) shared" where
  "log_paths audio_file_path subtitle_file_path s =
    (case audio_file_path of
       None \<Rightarrow> (Inl UnboundLocalError, s)
     | Some p \<Rightarrow> (Inr (p, subtitle_file_path), emit ERROR (AudioSubtitle p subtitle_file_path) s))"

text \<open>\<^verbatim>\<open>Trainer.__extract_in_multithreads\<close>: the value returned or the exception that
  leaves the function, and the shared state after it.\<close>

definition extract_in_multithreads ::
  "'a media \<Rightarrow> nat \<Rightarrow> string \<Rightarrow> string \<Rightarrow> ('a, 'v) shared \<Rightarrow>
   (exn + string \<times> string) \<times> ('a, 'v) shared" where
  "extract_in_multithreads c index av_file_path subtitle_file_path s =
    (case try_body c av_file_path subtitle_file_path of
       (audio_file_path, Inl e, msgs) \<Rightarrow>
         if e = UnsupportedFormatException \<or> e = TerminalException then
           log_paths audio_file_path subtitle_file_path
             (emit ERROR (ExceptionStacktrace e) (s\<lparr>logged := logged s @ msgs\<rparr>))
         else
           log_paths audio_file_path subtitle_file_path
             (emit ERROR (UnexpectedException e) (s\<lparr>logged := logged s @ msgs\<rparr>))
     | (audio_file_path, Inr (x, y), msgs) \<Rightarrow>
         (let s1 = s\<lparr>logged := logged s @ msgs\<rparr>
          in case list_store (train_data_slots s1) index (Some x) of
               Inl e \<Rightarrow> (Inl e, s1)
             | Inr td \<Rightarrow>
                 (case list_store (labels_slots s1) index (Some y) of
                    Inl e \<Rightarrow> (Inl e, s1\<lparr>train_data_slots := td\<rparr>)
                  | Inr lb \<Rightarrow>
                      (case audio_file_path of
                         None \<Rightarrow>
                           (Inl UnboundLocalError, s1\<lparr>train_data_slots := td, labels_slots := lb\<rparr>)
                       | Some p \<Rightarrow>
                           (Inr (p, subtitle_file_path),
                            s1\<lparr>train_data_slots := td, labels_slots := lb\<rparr>)))))"

section \<open>The extraction coordinator\<close>

text \<open>
  Lines 177 to 188 submit one task per index of \<^verbatim>\<open>range(len(av_file_paths))\<close>;
  \<^verbatim>\<open>subtitle_file_paths[index]\<close> raises \<^verbatim>\<open>IndexError\<close> when the subtitle list is
  shorter, after the tasks before it were submitted. A task's return value or exception
  stays in its future: \<^verbatim>\<open>concurrent.futures.wait(futures)\<close> has no timeout, so it returns
  every future in \<^verbatim>\<open>done\<close>, \<^verbatim>\<open>not_done\<close> is empty and the loop of lines 190 to 203 has
  no iteration. A task reads its own arguments and writes slot \<open>index\<close> of each list only,
  so the slots after the barrier do not depend on how the pool schedules the tasks; here
  they run in the order of submission.
\<close>

fun submit_all ::
  "'a media \<Rightarrow> string list \<Rightarrow> string list \<Rightarrow> nat list \<Rightarrow> ('a, 'v) shared \<Rightarrow>
   exn option \<times> ('a, 'v) shared" where
  "submit_all c av_file_paths subtitle_file_paths [] s = (None, s)"
| "submit_all c av_file_paths subtitle_file_paths (index # rest) s =
    (if index < length av_file_paths \<and> index < length subtitle_file_paths then
       submit_all c av_file_paths subtitle_file_paths rest
         (snd (extract_in_multithreads c index (av_file_paths ! index)
                 (subtitle_file_paths ! index) s))
     else (Some IndexError, s))"

text \<open>\<^verbatim>\<open>[x for x in xs if x is not None]\<close>\<close>

primrec not_none :: "'b option list \<Rightarrow> 'b list" where
  "not_none [] = []"
| "not_none (x # xs) = (case x of None \<Rightarrow> not_none xs | Some v \<Rightarrow> v # not_none xs)"

text \<open>Lines 167 to 170: \<^verbatim>\<open>[None] * len(av_file_paths), [None] * len(subtitle_file_paths)\<close>\<close>

definition initial_slots :: "string list \<Rightarrow> string list \<Rightarrow> 'v log \<Rightarrow> ('a, 'v) shared" where
  "initial_slots av_file_paths subtitle_file_paths lg =
    \<lparr>train_data_slots = replicate (length av_file_paths) None,
     labels_slots = replicate (length subtitle_file_paths) None,
     logged = lg\<rparr>"

text \<open>\<^verbatim>\<open>Trainer.__extract_data_and_label_from_avs\<close>\<close>

definition extract_data_and_label_from_avs ::
  "host \<Rightarrow> 'a media \<Rightarrow> string list \<Rightarrow> string list \<Rightarrow> 'v log \<Rightarrow>
   (exn + 'a ndarray \<times> 'a ndarray) \<times> 'v log" where
  "extract_data_and_label_from_avs h c av_file_paths subtitle_file_paths lg =
    (let s0 = initial_slots av_file_paths subtitle_file_paths lg
     in case pool_workers h of
          Inl e \<Rightarrow> (Inl e, lg)
        | Inr workers \<Rightarrow>
            (case submit_all c av_file_paths subtitle_file_paths [0..<length av_file_paths] s0 of
               (Some e, s) \<Rightarrow> (Inl e, logged s)
             | (None, s) \<Rightarrow>
                 (case np_concatenate (not_none (train_data_slots s)) of
                    Inl e \<Rightarrow> (Inl e, logged s)
                  | Inr td \<Rightarrow>
                      (case np_concatenate (not_none (labels_slots s)) of
                         Inl e \<Rightarrow> (Inl e, logged s)
                       | Inr lb \<Rightarrow>
                           (Inr (td, lb), logged s @ [(DEBUG, DataAndLabelsExtracted)])))))"

section \<open>The corpus dump and the network\<close>

text \<open>
  An HDF5 file maps dataset names to arrays; the files of the run are a map from paths.
  \<^verbatim>\<open>h5py.File(path, "r")\<close> raises \<^verbatim>\<open>OSError\<close> for a missing file and \<^verbatim>\<open>hf[name]\<close> raises
  \<^verbatim>\<open>KeyError\<close> for a missing dataset.
\<close>

type_synonym 'a h5file = "string \<rightharpoonup> 'a ndarray"
type_synonym 'a files = "string \<rightharpoonup> 'a h5file"

definition h5_get :: "'a h5file \<Rightarrow> string \<Rightarrow> exn + 'a ndarray" where
  "h5_get hf name = (case hf name of None \<Rightarrow> Inl KeyError | Some d \<Rightarrow> Inr d)"

text \<open>
  The class \<^verbatim>\<open>Network\<close> is imported from \<^verbatim>\<open>.network\<close>; a network object is a value
  of the type \<open>'n\<close>. Each of the five operations the trainer calls returns or raises, and
  every call is recorded with its arguments in the order it is made.
\<close>

datatype ('a, 'n) call =
    Load_model_and_weights string string
  | Get_lstm "nat \<times> nat"
  | Fit_with_generator 'n "'a ndarray" "'a ndarray" string string string nat string bool
  | Fit_and_get_history 'n "'a ndarray" "'a ndarray" string string string nat string bool
  | Save_model_and_weights 'n string string string

record ('a, 'n, 'v) network_api =
  load_model_and_weights :: "string \<Rightarrow> string \<Rightarrow> exn + 'n"
  get_lstm :: "nat \<times> nat \<Rightarrow> exn + 'n"
  fit_with_generator ::
    "'n \<Rightarrow> 'a ndarray \<Rightarrow> 'a ndarray \<Rightarrow> string \<Rightarrow> string \<Rightarrow> string \<Rightarrow> nat \<Rightarrow> string \<Rightarrow> bool
     \<Rightarrow> exn + 'v list \<times> 'v list"
  fit_and_get_history ::
    "'n \<Rightarrow> 'a ndarray \<Rightarrow> 'a ndarray \<Rightarrow> string \<Rightarrow> string \<Rightarrow> string \<Rightarrow> nat \<Rightarrow> string \<Rightarrow> bool
     \<Rightarrow> exn + 'v list \<times> 'v list"
  save_model_and_weights :: "'n \<Rightarrow> string \<Rightarrow> string \<Rightarrow> string \<Rightarrow> exn option"

text \<open>The state of one call of \<^verbatim>\<open>train\<close>: the HDF5 files the trainer itself opens,
  the log and the calls made on \<^verbatim>\<open>Network\<close>. What an operation of \<^verbatim>\<open>Network\<close> writes goes
  to the paths it is called with and is not part of \<open>files\<close>.\<close>

record ('a, 'n, 'v) run =
  files :: "'a files"
  logs :: "'v log"
  calls :: "('a, 'n) call list"

definition say :: "level \<Rightarrow> 'v message \<Rightarrow> ('a, 'n, 'v) run \<Rightarrow> ('a, 'n, 'v) run" where
  "say l m st = st\<lparr>logs := logs st @ [(l, m)]\<rparr>"

definition called :: "('a, 'n) call \<Rightarrow> ('a, 'n, 'v) run \<Rightarrow> ('a, 'n, 'v) run" where
  "called c st = st\<lparr>calls := calls st @ [c]\<rparr>"

text \<open>\<^verbatim>\<open>min(xs)\<close> and \<^verbatim>\<open>max(xs)\<close>: \<^verbatim>\<open>ValueError\<close> for an empty sequence.\<close>

definition py_min :: "'v::linorder list \<Rightarrow> exn + 'v" where
  "py_min xs = (case xs of [] \<Rightarrow> Inl ValueError | x # r \<Rightarrow> Inr (fold min r x))"

definition py_max :: "'v::linorder list \<Rightarrow> exn + 'v" where
  "py_max xs = (case xs of [] \<Rightarrow> Inl ValueError | x # r \<Rightarrow> Inr (fold max r x))"

section \<open>train\<close>

text \<open>Lines 140 to 152, after either branch.\<close>

definition finish ::
  "('a, 'n, 'v::linorder) network_api \<Rightarrow> 'n \<Rightarrow> string \<Rightarrow> string \<Rightarrow> string \<Rightarrow>
   'v list \<Rightarrow> 'v list \<Rightarrow> ('a, 'n, 'v) run \<Rightarrow> (exn + unit) \<times> ('a, 'n, 'v) run" where
  "finish k network model_dir model_filepath weights_filepath val_loss val_acc st =
    (case py_min val_loss of
       Inl e \<Rightarrow> (Inl e, st)
     | Inr lo \<Rightarrow>
         (case py_max val_acc of
            Inl e \<Rightarrow> (Inl e, say DEBUG (ValLoss lo) st)
          | Inr hi \<Rightarrow>
              (let combined_filepath = model_dir @ ''/combined.hdf5'';
                   st1 = called (Save_model_and_weights network model_filepath weights_filepath
                                   combined_filepath)
                           (say INFO TotalTrainingTime
                             (say DEBUG (ValAcc hi) (say DEBUG (ValLoss lo) st)))
               in case save_model_and_weights k network model_filepath weights_filepath
                         combined_filepath of
                    Some e \<Rightarrow> (Inl e, st1)
                  | None \<Rightarrow> (Inr (), st1))))"

text \<open>Lines 88 to 93: the network of the resume-from-dump branch.\<close>

definition dump_network ::
  "('a, 'n, 'v) network_api \<Rightarrow> bool \<Rightarrow> string \<Rightarrow> string \<Rightarrow> 'a ndarray \<Rightarrow>
   ('a, 'n, 'v) run \<Rightarrow> (exn + 'n) \<times> ('a, 'n, 'v) run" where
  "dump_network k resume model_filepath weights_filepath train_data_raw st =
    (if resume then
       (load_model_and_weights k model_filepath weights_filepath,
        called (Load_model_and_weights model_filepath weights_filepath) st)
     else
       (case tuple_get (shape train_data_raw) 2 of
          Inl e \<Rightarrow> (Inl e, st)
        | Inr d2 \<Rightarrow>
            (case tuple_get (shape train_data_raw) 1 of
               Inl e \<Rightarrow> (Inl e, st)
             | Inr d1 \<Rightarrow>
                 (get_lstm k (d2, d1),
                  called (Get_lstm (d2, d1)) (say DEBUG (InputShape d2 d1) st)))))"

text \<open>Lines 77 to 104 and the common end.\<close>

definition train_from_dump ::
  "('a, 'n, 'v::linorder) network_api \<Rightarrow> string \<Rightarrow> string \<Rightarrow> string \<Rightarrow> string \<Rightarrow> nat \<Rightarrow>
   string \<Rightarrow> bool \<Rightarrow> ('a, 'n, 'v) run \<Rightarrow> (exn + unit) \<times> ('a, 'n, 'v) run" where
  "train_from_dump k model_dir weights_dir logs_dir training_dump_dir epochs training_log
     resume st =
    (let model_filepath = model_dir @ ''/model.hdf5'';
         weights_filepath = weights_dir @ ''/weights.hdf5'';
         training_dump = training_dump_dir @ ''/training_dump.hdf5'';
         st1 = say DEBUG ResumeTrainingOnDataDump st
     in case files st1 training_dump of
          None \<Rightarrow> (Inl OSError, st1)
        | Some hf \<Rightarrow>
            (case h5_get hf ''train_data'' of
               Inl e \<Rightarrow> (Inl e, st1)
             | Inr train_data_raw \<Rightarrow>
                 (case h5_get hf ''labels'' of
                    Inl e \<Rightarrow> (Inl e, st1)
                  | Inr labels_raw \<Rightarrow>
                      (case dump_network k resume model_filepath weights_filepath
                              train_data_raw st1 of
                         (Inl e, st2) \<Rightarrow> (Inl e, st2)
                       | (Inr network, st2) \<Rightarrow>
                           (let st3 = called (Fit_with_generator network train_data_raw
                                                labels_raw model_filepath weights_filepath
                                                logs_dir epochs training_log resume) st2
                            in case fit_with_generator k network train_data_raw labels_raw
                                      model_filepath weights_filepath logs_dir epochs
                                      training_log resume of
                                 Inl e \<Rightarrow> (Inl e, st3)
                               | Inr (val_loss, val_acc) \<Rightarrow>
                                   finish k network model_dir model_filepath weights_filepath
                                     val_loss val_acc st3)))))"

text \<open>Lines 116 to 118: one permutation of \<^verbatim>\<open>arange(len(labels))\<close>, used to index both
  arrays.\<close>

definition permute ::
  "'a numeric \<Rightarrow> 'a ndarray \<Rightarrow> 'a ndarray \<Rightarrow> exn + 'a ndarray \<times> 'a ndarray" where
  "permute f train_data labels =
    (case py_len labels of
       Inl e \<Rightarrow> Inl e
     | Inr n \<Rightarrow>
         (let rand = permutation f n
          in case take_rows train_data rand of
               Inl e \<Rightarrow> Inl e
             | Inr train_data' \<Rightarrow>
                 (case take_rows labels rand of
                    Inl e \<Rightarrow> Inl e
                  | Inr labels' \<Rightarrow> Inr (train_data', labels'))))"

text \<open>Lines 120 to 122: \<^verbatim>\<open>np.array([np.rot90(m=val, k=1, axes=(0, 1)) for val in
  train_data])\<close>; the comprehension stops at the first sub-array that raises.\<close>

fun rot90_each :: "'a ndarray list \<Rightarrow> exn + 'a ndarray list" where
  "rot90_each [] = Inr []"
| "rot90_each (val # vals) =
    (case np_rot90 val of
       Inl e \<Rightarrow> Inl e
     | Inr r \<Rightarrow> (case rot90_each vals of Inl e \<Rightarrow> Inl e | Inr rs \<Rightarrow> Inr (r # rs)))"

definition reorient :: "'a ndarray \<Rightarrow> exn + 'a ndarray" where
  "reorient train_data =
    (case items train_data of
       Inl e \<Rightarrow> Inl e
     | Inr vals \<Rightarrow> (case rot90_each vals of Inl e \<Rightarrow> Inl e | Inr rs \<Rightarrow> Inr (np_array rs)))"

text \<open>Lines 116 to 125: the arrays handed to the fit and the input shape.\<close>

definition prepare ::
  "'a numeric \<Rightarrow> 'a ndarray \<Rightarrow> 'a ndarray \<Rightarrow> exn + 'a ndarray \<times> 'a ndarray \<times> nat \<times> nat" where
  "prepare f train_data labels =
    (case permute f train_data labels of
       Inl e \<Rightarrow> Inl e
     | Inr (train_data1, labels1) \<Rightarrow>
         (case reorient train_data1 of
            Inl e \<Rightarrow> Inl e
          | Inr train_data2 \<Rightarrow>
              (case center f train_data2 of
                 Inl e \<Rightarrow> Inl e
               | Inr train_data3 \<Rightarrow>
                   (case tuple_get (shape train_data3) 1 of
                      Inl e \<Rightarrow> Inl e
                    | Inr d1 \<Rightarrow>
                        (case tuple_get (shape train_data3) 2 of
                           Inl e \<Rightarrow> Inl e
                         | Inr d2 \<Rightarrow> Inr (train_data3, labels1, d1, d2))))))"

text \<open>
  Lines 111 to 138 and the common end, from the coordinator's result on.
  \<^verbatim>\<open>h5py.File(training_dump, "w")\<close> creates the file or truncates the one that is there
  (\<^verbatim>\<open>OSError\<close> when it cannot be created), and \<^verbatim>\<open>create_dataset(name, data=...)\<close> stores a
  copy of the array. The file is closed when the \<^verbatim>\<open>with\<close> block is left, also by an
  exception.
\<close>

definition fit_fresh ::
  "host \<Rightarrow> 'a numeric \<Rightarrow> ('a, 'n, 'v::linorder) network_api \<Rightarrow> 'a ndarray \<Rightarrow> 'a ndarray \<Rightarrow>
   string \<Rightarrow> string \<Rightarrow> string \<Rightarrow> string \<Rightarrow> nat \<Rightarrow> string \<Rightarrow>
   ('a, 'n, 'v) run \<Rightarrow> (exn + unit) \<times> ('a, 'n, 'v) run" where
  "fit_fresh h f k train_data labels model_dir weights_dir logs_dir training_dump_dir epochs
     training_log st =
    (let model_filepath = model_dir @ ''/model.hdf5'';
         weights_filepath = weights_dir @ ''/weights.hdf5'';
         training_dump = training_dump_dir @ ''/training_dump.hdf5''
     in if \<not> creatable h training_dump then (Inl OSError, st)
        else
          (let st1 = st\<lparr>files := (files st)(training_dump \<mapsto>
                         [''train_data'' \<mapsto> train_data, ''labels'' \<mapsto> labels])\<rparr>
           in case prepare f train_data labels of
                Inl e \<Rightarrow> (Inl e, st1)
              | Inr (train_data', labels', d1, d2) \<Rightarrow>
                  (let st2 = called (Get_lstm (d1, d2)) (say DEBUG (InputShape d1 d2) st1)
                   in case get_lstm k (d1, d2) of
                        Inl e \<Rightarrow> (Inl e, st2)
                      | Inr network \<Rightarrow>
                          (let st3 = called (Fit_and_get_history network train_data' labels'
                                               model_filepath weights_filepath logs_dir epochs
                                               training_log False) st2
                           in case fit_and_get_history k network train_data' labels'
                                     model_filepath weights_filepath logs_dir epochs
                                     training_log False of
                                Inl e \<Rightarrow> (Inl e, st3)
                              | Inr (val_loss, val_acc) \<Rightarrow>
                                  finish k network model_dir model_filepath weights_filepath
                                    val_loss val_acc st3))))"

text \<open>Lines 106 to 108, then the rest of the branch.\<close>

definition train_fresh ::
  "host \<Rightarrow> 'a media \<Rightarrow> 'a numeric \<Rightarrow> ('a, 'n, 'v::linorder) network_api \<Rightarrow>
   string list \<Rightarrow> string list \<Rightarrow> string \<Rightarrow> string \<Rightarrow> string \<Rightarrow> string \<Rightarrow> nat \<Rightarrow> string \<Rightarrow>
   ('a, 'n, 'v) run \<Rightarrow> (exn + unit) \<times> ('a, 'n, 'v) run" where
  "train_fresh h c f k av_file_paths subtitle_file_paths model_dir weights_dir logs_dir
     training_dump_dir epochs training_log st =
    (case extract_data_and_label_from_avs h c av_file_paths subtitle_file_paths (logs st) of
       (Inl e, lg) \<Rightarrow> (Inl e, st\<lparr>logs := lg\<rparr>)
     | (Inr (train_data, labels), lg) \<Rightarrow>
         fit_fresh h f k train_data labels model_dir weights_dir logs_dir training_dump_dir
           epochs training_log (st\<lparr>logs := lg\<rparr>))"

text \<open>\<^verbatim>\<open>Trainer.train\<close>\<close>

definition train ::
  "host \<Rightarrow> 'a media \<Rightarrow> 'a numeric \<Rightarrow> ('a, 'n, 'v::linorder) network_api \<Rightarrow>
   string list option \<Rightarrow> string list option \<Rightarrow> string \<Rightarrow> string \<Rightarrow> string \<Rightarrow> string \<Rightarrow>
   nat \<Rightarrow> string \<Rightarrow> bool \<Rightarrow> ('a, 'n, 'v) run \<Rightarrow> (exn + unit) \<times> ('a, 'n, 'v) run" where
  "train h c f k av_file_paths subtitle_file_paths model_dir weights_dir logs_dir
     training_dump_dir epochs training_log resume st =
    (case decide_source av_file_paths subtitle_file_paths of
       ResumeFromDump \<Rightarrow>
         train_from_dump k model_dir weights_dir logs_dir training_dump_dir epochs
           training_log resume st
     | FreshExtraction \<Rightarrow>
         train_fresh h c f k (the av_file_paths) (the subtitle_file_paths) model_dir
           weights_dir logs_dir training_dump_dir epochs training_log st)"

section \<open>Notions used in the statements\<close>

text \<open>What the \<^verbatim>\<open>try\<close> body of a task yields for one pair of paths: the exception it
  raises or the embedder's pair of arrays.\<close>

definition sample_result ::
  "'a media \<Rightarrow> string \<Rightarrow> string \<Rightarrow> exn + 'a ndarray \<times> 'a ndarray" where
  "sample_result c av_file_path subtitle_file_path =
    fst (snd (try_body c av_file_path subtitle_file_path
                :: string option \<times> (exn + 'a ndarray \<times> 'a ndarray) \<times> unit log))"

text \<open>The pairs of the samples whose \<^verbatim>\<open>try\<close> body does not raise, in index order.\<close>

definition survivors ::
  "'a media \<Rightarrow> string list \<Rightarrow> string list \<Rightarrow> ('a ndarray \<times> 'a ndarray) list" where
  "survivors c av_file_paths subtitle_file_paths =
    concat (map (\<lambda>i. case sample_result c (av_file_paths ! i) (subtitle_file_paths ! i) of
                        Inl e \<Rightarrow> []
                      | Inr xy \<Rightarrow> [xy])
              [0..<length av_file_paths])"

text \<open>What a task with the result \<open>r\<close> does to the two lists of slots at its index.\<close>

definition fill :: "(exn + 'a ndarray \<times> 'a ndarray) \<Rightarrow> nat \<Rightarrow>
    'a ndarray option list \<times> 'a ndarray option list \<Rightarrow>
    'a ndarray option list \<times> 'a ndarray option list" where
  "fill r i t = (case r of Inl e \<Rightarrow> t | Inr (x, y) \<Rightarrow> ((fst t)[i := Some x], (snd t)[i := Some y]))"

text \<open>The sub-arrays of an array along its first axis, each flattened.\<close>

definition samples :: "'a ndarray \<Rightarrow> 'a list list" where
  "samples a = map (row a) [0..<hd (shape a)]"

text \<open>The calls of a run that starts a new model: no saved model is loaded, no fit is
  told to resume.\<close>

fun from_scratch_call :: "('a, 'n) call \<Rightarrow> bool" where
  "from_scratch_call (Get_lstm d) = True"
| "from_scratch_call (Fit_and_get_history n td lb m w l e g r) = (\<not> r)"
| "from_scratch_call (Save_model_and_weights n m w c) = True"
| "from_scratch_call (Load_model_and_weights m w) = False"
| "from_scratch_call (Fit_with_generator n td lb m w l e g r) = False"

text \<open>The calls a run added to the record of calls it started with.\<close>

definition new_calls :: "('a, 'n, 'v) run \<Rightarrow> ('a, 'n, 'v) run \<Rightarrow> ('a, 'n) call list" where
  "new_calls st st' = drop (length (calls st)) (calls st')"

section \<open>A concrete machine, media library and network\<close>

text \<open>
  The inputs at which the statements below are instantiated. The machine has four
  processors and no override; the one string its \<open>py_int\<close> is ever applied to below is
  \<^verbatim>\<open>'8'\<close>, which it reads as 8. Audio can be extracted from every file but
  \<^verbatim>\<open>bad.mp4\<close>; the embedder fails on \<^verbatim>\<open>missing.srt\<close> and otherwise returns one sample of
  two frames and three features, numbered from the length of the audio path, with that
  length as its label. Elements are integers, the permutation is the reversal, and the
  network is a number.
\<close>

definition demo_int :: "string \<Rightarrow> exn + int" where
  "demo_int s = (if s = ''8'' then Inr 8 else Inl ValueError)"

definition demo_host :: host where
  "demo_host =
    \<lparr>MAX_WORKERS = None, py_int = demo_int, cpu_count = 4, creatable = (\<lambda>p. True)\<rparr>"



definition demo_media :: "int media" where
  "demo_media =
    \<lparr>AUDIO_FILE_EXTENSION = [''.wav'', ''.aac''],
     extract_audio =
       (\<lambda>p. if p = ''bad.mp4'' then Inl UnsupportedFormatException
            else Inr (fst (splitext p) @ ''.wav'')),
     extract_data_and_label_from_audio =
       (\<lambda>a s. if s = ''missing.srt'' then Inl TerminalException
              else Inr (\<lparr>shape = [1, 2, 3],
                         flat = map (\<lambda>j. int (length a) + j) [0, 1, 2, 3, 4, 5]\<rparr>,
                        \<lparr>shape = [1], flat = [int (length a)]\<rparr>))\<rparr>"

definition demo_numeric :: "int numeric" where
  "demo_numeric =
    \<lparr>mean = (\<lambda>xs. sum_list xs div int (length xs)),
     subtract = (\<lambda>a b. a - b),
     permutation = (\<lambda>n. rev [0..<n])\<rparr>"

definition demo_network :: "(int, nat, int) network_api" where
  "demo_network =
    \<lparr>load_model_and_weights = (\<lambda>m w. Inr 7),
     get_lstm = (\<lambda>(a, b). Inr (a + b)),
     fit_with_generator = (\<lambda>n td lb m w l e tl r. Inr ([3, 1, 2], [5, 9, 6])),
     fit_and_get_history = (\<lambda>n td lb m w l e tl r. Inr ([3, 1, 2], [5, 9, 6])),
     save_model_and_weights = (\<lambda>n m w c. None)\<rparr>"

definition demo_run :: "(int, nat, int) run" where
  "demo_run = \<lparr>files = Map.empty, logs = [], calls = []\<rparr>"

text \<open>A dump left by an earlier run, and a run that starts with it in place.\<close>

definition demo_dump :: "int h5file" where
  "demo_dump =
    [''train_data'' \<mapsto> \<lparr>shape = [2, 2, 3], flat = [1, 2, 3, 4, 5, 6, 7, 8, 9, 10, 11, 12]\<rparr>,
     ''labels'' \<mapsto> \<lparr>shape = [2], flat = [0, 1]\<rparr>]"

definition demo_dump_run :: "(int, nat, int) run" where
  "demo_dump_run = \<lparr>files = [''d/training_dump.hdf5'' \<mapsto> demo_dump], logs = [], calls = []\<rparr>"

section \<open>Source selection\<close>

text \<open>
  C1, as the spec states it, fails twice. With the audio/video list absent and a
  non-empty subtitle list, the lists are not both absent, and \<open>train\<close> still resumes from
  the dump; with two empty lists it extracts.
\<close>

theorem C1_counterexample:
  "decide_source None (Some [''a.srt'']) = ResumeFromDump \<and>
   decide_source (Some []) (Some []) = FreshExtraction"
  by (simp add: decide_source_def)

text \<open>
  C1 (amended): \<open>train\<close> takes the resume-from-dump branch exactly when at least one of
  the two path lists is \<^verbatim>\<open>None\<close>, and then runs the code of that branch; whenever both
  lists are given, empty or not, it runs the fresh-extraction branch on them.
\<close>

theorem C1_source_selection:
  "(decide_source av_file_paths subtitle_file_paths = ResumeFromDump
      \<longleftrightarrow> av_file_paths = None \<or> subtitle_file_paths = None) \<and>
   (av_file_paths = None \<or> subtitle_file_paths = None \<longrightarrow>
      train h c f k av_file_paths subtitle_file_paths model_dir weights_dir logs_dir
        training_dump_dir epochs training_log resume st =
      train_from_dump k model_dir weights_dir logs_dir training_dump_dir epochs training_log
        resume st) \<and>
   train h c f k (Some av) (Some sub) model_dir weights_dir logs_dir training_dump_dir
     epochs training_log resume st =
   train_fresh h c f k av sub model_dir weights_dir logs_dir training_dump_dir epochs
     training_log st"
  by (auto simp add: decide_source_def train_def)

theorem C1_source_selection_witness:
  "decide_source None (Some [''a.srt'']) = ResumeFromDump \<and>
   decide_source (Some [''a.wav'']) (Some [''a.srt'']) \<noteq> ResumeFromDump \<and>
   train demo_host demo_media demo_numeric demo_network None (Some [''a.srt''])
     ''m'' ''w'' ''l'' ''d'' 1 ''t.log'' False demo_run =
   train_from_dump demo_network ''m'' ''w'' ''l'' ''d'' 1 ''t.log'' False demo_run"
  using
    C1_source_selection [of None "Some [''a.srt'']" demo_host demo_media demo_numeric
      demo_network "''m''" "''w''" "''l''" "''d''" 1 "''t.log''" False demo_run]
    C1_source_selection [of "Some [''a.wav'']" "Some [''a.srt'']" demo_host demo_media
      demo_numeric demo_network "''m''" "''w''" "''l''" "''d''" 1 "''t.log''" False demo_run]
  by simp

section \<open>The immutability hook\<close>

text \<open>
  C4 says that setting or deleting any attribute of a constructed Trainer raises. The
  two functions of lines 38 to 42 are locals of \<^verbatim>\<open>__init__\<close>; the class namespace has
  no \<^verbatim>\<open>__setattr__\<close> and no \<^verbatim>\<open>__delattr__\<close>, so both statements reach the inherited
  implementation: setting any attribute succeeds and stores the value, and deleting the
  embedder succeeds and removes it.
\<close>

theorem C4_attributes_stay_mutable:
  "py_setattr Trainer_namespace (fst (Trainer_init feature_embedder)) name v =
     Inr ((fst (Trainer_init feature_embedder))(name \<mapsto> v)) \<and>
   py_delattr Trainer_namespace (fst (Trainer_init feature_embedder))
     ''_Trainer__feature_embedder'' = Inr Map.empty"
  by (simp add: py_setattr_def py_delattr_def Trainer_namespace_def Trainer_init_def)

section \<open>The worker count of the pool\<close>




section \<open>A task that fails before the audio path is bound\<close>

text \<open>
  When the extension is not an audio one and \<^verbatim>\<open>extract_audio\<close> raises, the handler
  logs the exception, and its second log statement reads the unbound
  \<^verbatim>\<open>audio_file_path\<close>: the task ends with \<^verbatim>\<open>UnboundLocalError\<close>, the slots and the rest
  of the state are as the first log statement left them, and no record names the paths.
\<close>

lemma task_unbound_audio_path:
  assumes "snd (splitext av_file_path) \<notin> set (AUDIO_FILE_EXTENSION c)"
    and "extract_audio c av_file_path = Inl e"
  shows "extract_in_multithreads c index av_file_path subtitle_file_path s =
    (Inl UnboundLocalError,
     emit ERROR (if e = UnsupportedFormatException \<or> e = TerminalException
                 then ExceptionStacktrace e else UnexpectedException e) s)"
  using assms
  by (auto simp add: extract_in_multithreads_def try_body_def log_paths_def emit_def
      split: prod.splits)

text \<open>
  When the failure comes after the path was bound (from the embedder, for an audio file
  or after a successful audio extraction), the task logs the exception and the two
  paths, writes no slot and returns the paths.
\<close>

lemma task_failure_after_binding:
  assumes "try_body c av_file_path subtitle_file_path = (Some p, Inl e, msgs)"
    and "e = UnsupportedFormatException \<or> e = TerminalException"
  shows "extract_in_multithreads c index av_file_path subtitle_file_path s =
    (Inr (p, subtitle_file_path),
     s\<lparr>logged := logged s @ msgs @
        [(ERROR, ExceptionStacktrace e), (ERROR, AudioSubtitle p subtitle_file_path)]\<rparr>)"
  using assms
  by (auto simp add: extract_in_multithreads_def log_paths_def emit_def)

text \<open>The path is unbound at the end of the \<^verbatim>\<open>try\<close> body exactly when the file is not
  an audio file and \<^verbatim>\<open>extract_audio\<close> raises.\<close>

lemma unbound_iff:
  "fst (try_body c av_file_path subtitle_file_path) = None \<longleftrightarrow>
   snd (splitext av_file_path) \<notin> set (AUDIO_FILE_EXTENSION c) \<and>
   (\<exists>e. extract_audio c av_file_path = Inl e)"
  by (auto simp add: try_body_def split: prod.splits sum.splits)

text \<open>
  C2 at the failing input: \<^verbatim>\<open>movie.mp4\<close> is not an audio file and its audio cannot be
  extracted (unsupported format). The task does not return: it raises
  \<^verbatim>\<open>UnboundLocalError\<close>, and the log holds the exception but no record of the paths. The
  slot stays empty.
\<close>

theorem C2_unbound_audio_path:
  "extract_in_multithreads
     \<lparr>AUDIO_FILE_EXTENSION = [''.wav'', ''.aac''],
      extract_audio = (\<lambda>p. Inl UnsupportedFormatException),
      extract_data_and_label_from_audio = (\<lambda>a s. Inl TerminalException)\<rparr>
     0 ''movie.mp4'' ''movie.srt''
     \<lparr>train_data_slots = [None], labels_slots = [None], logged = []\<rparr> =
   (Inl UnboundLocalError,
    \<lparr>train_data_slots = [None], labels_slots = [None],
     logged = [(ERROR, ExceptionStacktrace UnsupportedFormatException)]\<rparr>)"
  by (simp add: extract_in_multithreads_def try_body_def splitext_def log_paths_def emit_def)

section \<open>The slots after the barrier\<close>

lemma try_body_result: "fst (snd (try_body c a b)) = sample_result c a b"
  by (simp add: sample_result_def try_body_def split: prod.splits sum.splits)

lemma log_paths_slots:
  "train_data_slots (snd (log_paths p b s)) = train_data_slots s \<and>
   labels_slots (snd (log_paths p b s)) = labels_slots s"
  by (simp add: log_paths_def emit_def split: option.splits)

lemma task_slots:
  assumes "index < length (train_data_slots s)" and "index < length (labels_slots s)"
  shows "(train_data_slots (snd (extract_in_multithreads c index a b s)),
          labels_slots (snd (extract_in_multithreads c index a b s))) =
         fill (sample_result c a b) index (train_data_slots s, labels_slots s)"
proof (cases "try_body c a b :: string option \<times> (exn + 'a ndarray \<times> 'a ndarray) \<times> 'b log")
  case (fields p r msgs)
  then have r: "sample_result c a b = r"
    using try_body_result [of c a b, where ?'b = 'b] by simp
  show ?thesis
  proof (cases r)
    case (Inl e)
    then show ?thesis
      using fields r
      by (simp add: extract_in_multithreads_def fill_def log_paths_slots emit_def)
  next
    case (Inr xy)
    then show ?thesis
      using fields r assms
      by (cases xy) (simp add: extract_in_multithreads_def fill_def list_store_def Let_def
          split: option.splits)
  qed
qed

lemma task_lengths:
  "length (train_data_slots (snd (extract_in_multithreads c index a b s))) =
     length (train_data_slots s) \<and>
   length (labels_slots (snd (extract_in_multithreads c index a b s))) =
     length (labels_slots s)"
  by (auto simp add: extract_in_multithreads_def list_store_def Let_def log_paths_slots emit_def
      split: prod.splits sum.splits option.splits)

lemma submit_all_slots:
  assumes "\<forall>i\<in>set idxs. i < length av \<and> i < length sub"
    and "length (train_data_slots s) = length av"
    and "length (labels_slots s) = length sub"
  shows "fst (submit_all c av sub idxs s) = None \<and>
    (train_data_slots (snd (submit_all c av sub idxs s)),
     labels_slots (snd (submit_all c av sub idxs s))) =
    fold (\<lambda>i. fill (sample_result c (av ! i) (sub ! i)) i) idxs
      (train_data_slots s, labels_slots s)"
  using assms
proof (induction idxs arbitrary: s)
  case Nil
  then show ?case by simp
next
  case (Cons i idxs)
  let ?s = "snd (extract_in_multithreads c i (av ! i) (sub ! i) s)"
  have i: "i < length av" "i < length sub"
    using Cons.prems(1) by simp_all
  have len: "length (train_data_slots ?s) = length av" "length (labels_slots ?s) = length sub"
    using task_lengths [of c i "av ! i" "sub ! i" s] Cons.prems(2,3) by simp_all
  have step: "(train_data_slots ?s, labels_slots ?s) =
      fill (sample_result c (av ! i) (sub ! i)) i (train_data_slots s, labels_slots s)"
    using task_slots [of i s c "av ! i" "sub ! i"] i Cons.prems(2,3) by simp
  have rest: "\<forall>j\<in>set idxs. j < length av \<and> j < length sub"
    using Cons.prems(1) by simp
  show ?case
    using Cons.IH [OF rest len] i step by simp
qed

lemma fold_fill_upt:
  assumes "n \<le> m1" and "n \<le> m2"
  shows "fold (\<lambda>i. fill (r i) i) [0..<n] (replicate m1 None, replicate m2 None) =
    (map (\<lambda>i. case r i of Inl e \<Rightarrow> None | Inr xy \<Rightarrow> Some (fst xy)) [0..<n]
       @ replicate (m1 - n) None,
     map (\<lambda>i. case r i of Inl e \<Rightarrow> None | Inr xy \<Rightarrow> Some (snd xy)) [0..<n]
       @ replicate (m2 - n) None)"
  using assms
proof (induction n)
  case 0
  then show ?case by simp
next
  case (Suc n)
  have split1: "replicate (m1 - n) None = (None :: 'a ndarray option) # replicate (m1 - Suc n) None"
    using Suc.prems(1) by (metis Suc_diff_Suc Suc_le_lessD replicate_Suc)
  have split2: "replicate (m2 - n) None = (None :: 'a ndarray option) # replicate (m2 - Suc n) None"
    using Suc.prems(2) by (metis Suc_diff_Suc Suc_le_lessD replicate_Suc)
  have upd: "\<And>(xs :: 'a ndarray option list) v ys. length xs = n \<Longrightarrow> (xs @ None # ys)[n := v] = xs @ v # ys"
    by (metis list_update_length)
  show ?case
    using Suc.IH Suc.prems
    by (cases "r n") (simp_all add: fill_def split1 split2 upd split: prod.splits)
qed

lemma not_none_append: "not_none (xs @ ys) = not_none xs @ not_none ys"
  by (induction xs) (simp_all split: option.splits)

lemma not_none_replicate: "not_none (replicate k None) = []"
  by (induction k) simp_all

lemma not_none_map:
  "not_none (map (\<lambda>i. case r i of Inl e \<Rightarrow> None | Inr xy \<Rightarrow> Some (g xy)) idxs) =
   map g (concat (map (\<lambda>i. case r i of Inl e \<Rightarrow> [] | Inr xy \<Rightarrow> [xy]) idxs))"
  by (induction idxs) (simp_all split: sum.splits)

lemma slots_filled:
  assumes "length av \<le> length sub"
  shows "fst (submit_all c av sub [0..<length av] (initial_slots av sub lg)) = None \<and>
    train_data_slots (snd (submit_all c av sub [0..<length av] (initial_slots av sub lg))) =
      map (\<lambda>i. case sample_result c (av ! i) (sub ! i) of
                  Inl e \<Rightarrow> None | Inr xy \<Rightarrow> Some (fst xy)) [0..<length av] \<and>
    labels_slots (snd (submit_all c av sub [0..<length av] (initial_slots av sub lg))) =
      map (\<lambda>i. case sample_result c (av ! i) (sub ! i) of
                  Inl e \<Rightarrow> None | Inr xy \<Rightarrow> Some (snd xy)) [0..<length av]
        @ replicate (length sub - length av) None"
proof -
  let ?init = "initial_slots av sub lg :: ('a, 'b) shared"
  let ?s = "snd (submit_all c av sub [0..<length av] ?init)"
  let ?r = "\<lambda>i. sample_result c (av ! i) (sub ! i)"
  have idx: "\<forall>i\<in>set [0..<length av]. i < length av \<and> i < length sub"
    using assms by simp
  have l1: "length (train_data_slots ?init) = length av"
    and l2: "length (labels_slots ?init) = length sub"
    by (simp_all add: initial_slots_def)
  have run: "fst (submit_all c av sub [0..<length av] ?init) = None \<and>
     (train_data_slots ?s, labels_slots ?s) =
     fold (\<lambda>i. fill (?r i) i) [0..<length av] (train_data_slots ?init, labels_slots ?init)"
    by (rule submit_all_slots [OF idx l1 l2])
  have filled: "fold (\<lambda>i. fill (?r i) i) [0..<length av]
      (train_data_slots ?init, labels_slots ?init) =
    (map (\<lambda>i. case ?r i of Inl e \<Rightarrow> None | Inr xy \<Rightarrow> Some (fst xy)) [0..<length av]
       @ replicate (length av - length av) None,
     map (\<lambda>i. case ?r i of Inl e \<Rightarrow> None | Inr xy \<Rightarrow> Some (snd xy)) [0..<length av]
       @ replicate (length sub - length av) None)"
    using fold_fill_upt [of "length av" "length av" "length sub" ?r] assms
    by (simp add: initial_slots_def)
  show ?thesis
    using run filled by simp
qed

lemma slots_aligned:
  assumes "length av \<le> length sub" and "i < length av"
  shows "(train_data_slots (snd (submit_all c av sub [0..<length av] (initial_slots av sub lg))) ! i
            = None) =
         (labels_slots (snd (submit_all c av sub [0..<length av] (initial_slots av sub lg))) ! i
            = None)"
  using slots_filled [OF assms(1), of c lg] assms(2)
  by (simp add: nth_append split: sum.splits)

lemma slots_after_barrier:
  assumes "length av \<le> length sub"
  shows "fst (submit_all c av sub [0..<length av] (initial_slots av sub lg)) = None \<and>
    not_none (train_data_slots (snd (submit_all c av sub [0..<length av] (initial_slots av sub lg))))
      = map fst (survivors c av sub) \<and>
    not_none (labels_slots (snd (submit_all c av sub [0..<length av] (initial_slots av sub lg))))
      = map snd (survivors c av sub)"
  using slots_filled [OF assms, of c lg]
  by (simp add: not_none_append not_none_replicate not_none_map survivors_def)

lemma coordinator_result:
  assumes "length av \<le> length sub" and "pool_workers h = Inr w"
  shows "fst (extract_data_and_label_from_avs h c av sub lg) =
    (case np_concatenate (map fst (survivors c av sub)) of
       Inl e \<Rightarrow> Inl e
     | Inr td \<Rightarrow>
         (case np_concatenate (map snd (survivors c av sub)) of
            Inl e \<Rightarrow> Inl e
          | Inr lb \<Rightarrow> Inr (td, lb)))"
proof -
  obtain r s where rs: "submit_all c av sub [0..<length av] (initial_slots av sub lg :: ('a, 'b) shared) = (r, s)"
    by (cases "submit_all c av sub [0..<length av] (initial_slots av sub lg :: ('a, 'b) shared)")
  have "r = None" and "not_none (train_data_slots s) = map fst (survivors c av sub)"
    and "not_none (labels_slots s) = map snd (survivors c av sub)"
    using slots_after_barrier [OF assms(1), of c lg] rs by simp_all
  then show ?thesis
    using rs assms(2)
    by (simp add: extract_data_and_label_from_avs_def split: sum.splits)
qed

lemma length_survivors: "length (survivors c av sub) \<le> length av"
proof -
  have "length (concat (map (\<lambda>i. case r i of Inl e \<Rightarrow> [] | Inr xy \<Rightarrow> [xy]) idxs)) \<le> length idxs"
    for r :: "nat \<Rightarrow> exn + 'a ndarray \<times> 'a ndarray" and idxs
    by (induction idxs) (simp_all split: sum.splits)
  from this [of "\<lambda>i. sample_result c (av ! i) (sub ! i)" "[0..<length av]"]
  show ?thesis by (simp add: survivors_def)
qed

lemma np_concatenate_flat:
  "np_concatenate arrays = Inr a \<Longrightarrow>
     flat a = concat (map flat arrays) \<and> hd (shape a) = sum_list (map (\<lambda>b. hd (shape b)) arrays)"
  by (auto simp add: np_concatenate_def split: list.splits if_splits)

section \<open>The order in which the pool runs the tasks\<close>

lemma fill_commute:
  assumes "i \<noteq> j"
  shows "fill r i (fill r' j t) = fill r' j (fill r i t)"
proof (cases r)
  case (Inl e)
  then show ?thesis by (simp add: fill_def)
next
  case r: (Inr xy)
  show ?thesis
  proof (cases r')
    case (Inl e)
    then show ?thesis by (simp add: fill_def)
  next
    case r': (Inr xy')
    have "(fst t)[j := Some (fst xy'), i := Some (fst xy)] =
        (fst t)[i := Some (fst xy), j := Some (fst xy')]"
      and "(snd t)[j := Some (snd xy'), i := Some (snd xy)] =
        (snd t)[i := Some (snd xy), j := Some (snd xy')]"
      using assms by (simp_all only: list_update_swap [of j i])
    then show ?thesis
      using r r' by (cases xy; cases xy') (simp add: fill_def)
  qed
qed

text \<open>
  Whatever order the tasks of the indices \<open>0, ..., N - 1\<close> run in, one after the other,
  the slots after the last one are those of the order of submission.
\<close>

lemma schedule_independent:
  assumes "mset idxs = mset [0..<length av]" and "length av \<le> length sub"
  shows "fst (submit_all c av sub idxs (initial_slots av sub lg)) = None \<and>
    train_data_slots (snd (submit_all c av sub idxs (initial_slots av sub lg))) =
      train_data_slots (snd (submit_all c av sub [0..<length av] (initial_slots av sub lg))) \<and>
    labels_slots (snd (submit_all c av sub idxs (initial_slots av sub lg))) =
      labels_slots (snd (submit_all c av sub [0..<length av] (initial_slots av sub lg)))"
proof -
  let ?init = "initial_slots av sub lg :: ('a, 'b) shared"
  let ?f = "\<lambda>i. fill (sample_result c (av ! i) (sub ! i)) i"
  have "set idxs = set [0..<length av]"
    using assms(1) by (metis set_mset_mset)
  then have idx: "\<forall>i\<in>set idxs. i < length av \<and> i < length sub"
    using assms(2) by auto
  have idx': "\<forall>i\<in>set [0..<length av]. i < length av \<and> i < length sub"
    using assms(2) by simp
  have l1: "length (train_data_slots ?init) = length av"
    and l2: "length (labels_slots ?init) = length sub"
    by (simp_all add: initial_slots_def)
  have commute: "?f x \<circ> ?f y = ?f y \<circ> ?f x" for x y
  proof (cases "x = y")
    case True
    then show ?thesis by simp
  next
    case False
    show ?thesis
    proof
      fix t
      show "(?f x \<circ> ?f y) t = (?f y \<circ> ?f x) t"
        using fill_commute [OF False, of "sample_result c (av ! x) (sub ! x)"
            "sample_result c (av ! y) (sub ! y)" t]
        by simp
    qed
  qed
  have "fold ?f idxs = fold ?f [0..<length av]"
    by (rule fold_multiset_equiv [OF commute assms(1)])
  then have same: "fold ?f idxs (train_data_slots ?init, labels_slots ?init) =
      fold ?f [0..<length av] (train_data_slots ?init, labels_slots ?init)"
    by simp
  have any: "fst (submit_all c av sub idxs ?init) = None"
    and slots: "(train_data_slots (snd (submit_all c av sub idxs ?init)),
        labels_slots (snd (submit_all c av sub idxs ?init))) =
      fold ?f idxs (train_data_slots ?init, labels_slots ?init)"
    using submit_all_slots [OF idx l1 l2, of c] by simp_all
  have slots': "(train_data_slots (snd (submit_all c av sub [0..<length av] ?init)),
        labels_slots (snd (submit_all c av sub [0..<length av] ?init))) =
      fold ?f [0..<length av] (train_data_slots ?init, labels_slots ?init)"
    using submit_all_slots [OF idx' l1 l2, of c] by simp
  have "(train_data_slots (snd (submit_all c av sub idxs ?init)),
        labels_slots (snd (submit_all c av sub idxs ?init))) =
      (train_data_slots (snd (submit_all c av sub [0..<length av] ?init)),
        labels_slots (snd (submit_all c av sub [0..<length av] ?init)))"
    by (simp only: slots slots' same)
  then show ?thesis
    using any by simp
qed

section \<open>What the coordinator returns\<close>

text \<open>
  C10: with at least as many subtitle paths as audio/video paths and a pool that can be
  created, the coordinator returns exactly the concatenation of the feature arrays and the
  concatenation of the label arrays of the samples that succeeded, in index order (and
  raises what \<^verbatim>\<open>np.concatenate\<close> raises on them otherwise); there are at most as many
  survivors as samples; the returned arrays hold the survivors' elements in that order;
  and after the barrier a feature slot is empty exactly when the label slot of the same
  index is.
\<close>

theorem C10_survivors_in_index_order:
  assumes "length av \<le> length sub" and "pool_workers h = Inr w"
  shows "fst (extract_data_and_label_from_avs h c av sub lg) =
      (case np_concatenate (map fst (survivors c av sub)) of
         Inl e \<Rightarrow> Inl e
       | Inr td \<Rightarrow>
           (case np_concatenate (map snd (survivors c av sub)) of
              Inl e \<Rightarrow> Inl e
            | Inr lb \<Rightarrow> Inr (td, lb))) \<and>
    length (survivors c av sub) \<le> length av \<and>
    (\<forall>td lb. fst (extract_data_and_label_from_avs h c av sub lg) = Inr (td, lb) \<longrightarrow>
       flat td = concat (map (\<lambda>xy. flat (fst xy)) (survivors c av sub)) \<and>
       flat lb = concat (map (\<lambda>xy. flat (snd xy)) (survivors c av sub))) \<and>
    (\<forall>i<length av.
       (train_data_slots (snd (submit_all c av sub [0..<length av] (initial_slots av sub lg))) ! i
          = None) =
       (labels_slots (snd (submit_all c av sub [0..<length av] (initial_slots av sub lg))) ! i
          = None))"
proof -
  let ?S = "survivors c av sub"
  have result: "fst (extract_data_and_label_from_avs h c av sub lg) =
      (case np_concatenate (map fst ?S) of
         Inl e \<Rightarrow> Inl e
       | Inr td \<Rightarrow>
           (case np_concatenate (map snd ?S) of Inl e \<Rightarrow> Inl e | Inr lb \<Rightarrow> Inr (td, lb)))"
    by (rule coordinator_result [OF assms])
  have flats: "flat td = concat (map (\<lambda>xy. flat (fst xy)) ?S) \<and>
      flat lb = concat (map (\<lambda>xy. flat (snd xy)) ?S)"
    if "fst (extract_data_and_label_from_avs h c av sub lg) = Inr (td, lb)" for td lb
  proof -
    from that result have "np_concatenate (map fst ?S) = Inr td"
      and "np_concatenate (map snd ?S) = Inr lb"
      by (simp_all split: sum.splits)
    then show ?thesis
      using np_concatenate_flat [of "map fst ?S" td] np_concatenate_flat [of "map snd ?S" lb]
      by (simp add: comp_def)
  qed
  show ?thesis
    using result length_survivors [of c av sub] flats slots_aligned [OF assms(1), of _ c lg]
    by blast
qed

theorem C10_survivors_in_index_order_witness:
  "length [''a.wav'', ''bad.mp4'', ''cc.mkv''] \<le> length [''a.srt'', ''b.srt'', ''c.srt''] \<and>
   pool_workers demo_host = Inr 2 \<and>
   survivors demo_media [''a.wav'', ''bad.mp4'', ''cc.mkv''] [''a.srt'', ''b.srt'', ''c.srt''] =
     [(\<lparr>shape = [1, 2, 3], flat = [5, 6, 7, 8, 9, 10]\<rparr>, \<lparr>shape = [1], flat = [5]\<rparr>),
      (\<lparr>shape = [1, 2, 3], flat = [6, 7, 8, 9, 10, 11]\<rparr>, \<lparr>shape = [1], flat = [6]\<rparr>)] \<and>
   fst (extract_data_and_label_from_avs demo_host demo_media [''a.wav'', ''bad.mp4'', ''cc.mkv'']
          [''a.srt'', ''b.srt'', ''c.srt''] ([] :: int log)) =
     Inr (\<lparr>shape = [2, 2, 3], flat = [5, 6, 7, 8, 9, 10, 6, 7, 8, 9, 10, 11]\<rparr>,
          \<lparr>shape = [2], flat = [5, 6]\<rparr>)"
proof -
  have len: "length [''a.wav'', ''bad.mp4'', ''cc.mkv''] \<le> length [''a.srt'', ''b.srt'', ''c.srt'']"
    by simp
  have pool: "pool_workers demo_host = Inr 2"
    by (simp add: pool_workers_def max_workers_def ThreadPoolExecutor_def demo_host_def)
  have surv: "survivors demo_media [''a.wav'', ''bad.mp4'', ''cc.mkv''] [''a.srt'', ''b.srt'', ''c.srt''] =
     [(\<lparr>shape = [1, 2, 3], flat = [5, 6, 7, 8, 9, 10]\<rparr>, \<lparr>shape = [1], flat = [5]\<rparr>),
      (\<lparr>shape = [1, 2, 3], flat = [6, 7, 8, 9, 10, 11]\<rparr>, \<lparr>shape = [1], flat = [6]\<rparr>)]"
    by code_simp
  show ?thesis
    using C10_survivors_in_index_order [OF len pool, of demo_media "[] :: int log"] len pool surv
    by (simp add: np_concatenate_def)
qed

section \<open>No surviving sample\<close>

lemma no_survivors:
  assumes "\<forall>i<length av. \<exists>e. sample_result c (av ! i) (sub ! i) = Inl e"
  shows "survivors c av sub = []"
  using assms by (auto simp add: survivors_def split: sum.splits)

text \<open>
  C3 says the case of no surviving sample is detected and reported instead of raising
  inside the concatenation. With one sample whose subtitle file cannot be read, the
  coordinator logs the task's failure and then raises the \<^verbatim>\<open>ValueError\<close> of
  \<^verbatim>\<open>np.concatenate\<close> on the empty list; nothing reports the empty corpus.
\<close>

theorem C3_counterexample:
  "extract_data_and_label_from_avs demo_host demo_media [''a.wav''] [''missing.srt'']
     ([] :: int log) =
   (Inl ValueError,
    [(ERROR, ExceptionStacktrace TerminalException),
     (ERROR, AudioSubtitle ''a.wav'' ''missing.srt'')]) \<and>
   np_concatenate ([] :: int ndarray list) = Inl ValueError"
  by code_simp

text \<open>
  C3 (amended): when every one of the submitted samples fails in its \<^verbatim>\<open>try\<close> body, the
  coordinator raises \<^verbatim>\<open>ValueError\<close> from the concatenation of zero arrays, and \<open>train\<close>
  ends with that exception before it writes a dump or calls the network.
\<close>

theorem C3_no_guard_for_zero_survivors:
  assumes "length av \<le> length sub" and "pool_workers h = Inr w"
    and "\<forall>i<length av. \<exists>e. sample_result c (av ! i) (sub ! i) = Inl e"
  shows "fst (extract_data_and_label_from_avs h c av sub lg) = Inl ValueError \<and>
    fst (train h c f k (Some av) (Some sub) model_dir weights_dir logs_dir training_dump_dir
           epochs training_log resume st) = Inl ValueError \<and>
    files (snd (train h c f k (Some av) (Some sub) model_dir weights_dir logs_dir
                  training_dump_dir epochs training_log resume st)) = files st \<and>
    calls (snd (train h c f k (Some av) (Some sub) model_dir weights_dir logs_dir
                  training_dump_dir epochs training_log resume st)) = calls st"
proof -
  have none: "survivors c av sub = []"
    by (rule no_survivors [OF assms(3)])
  have raised: "fst (extract_data_and_label_from_avs h c av sub lg) = Inl ValueError"
    using coordinator_result [OF assms(1,2), of c lg] none
    by (simp add: np_concatenate_def)
  have "fst (extract_data_and_label_from_avs h c av sub (logs st)) = Inl ValueError"
    using coordinator_result [OF assms(1,2), of c "logs st"] none
    by (simp add: np_concatenate_def)
  then obtain lg' where
    "extract_data_and_label_from_avs h c av sub (logs st) = (Inl ValueError, lg')"
    by (cases "extract_data_and_label_from_avs h c av sub (logs st)") simp
  then show ?thesis
    using raised
    by (simp add: train_def decide_source_def train_fresh_def)
qed

theorem C3_no_guard_for_zero_survivors_witness:
  "length [''a.wav''] \<le> length [''missing.srt''] \<and> pool_workers demo_host = Inr 2 \<and>
   sample_result demo_media ''a.wav'' ''missing.srt'' = Inl TerminalException \<and>
   fst (train demo_host demo_media demo_numeric demo_network (Some [''a.wav''])
          (Some [''missing.srt'']) ''m'' ''w'' ''l'' ''d'' 1 ''t.log'' False demo_run) =
     Inl ValueError"
proof -
  have len: "length [''a.wav''] \<le> length [''missing.srt'']"
    by simp
  have pool: "pool_workers demo_host = Inr 2"
    by (simp add: pool_workers_def max_workers_def ThreadPoolExecutor_def demo_host_def)
  have failed: "sample_result demo_media ''a.wav'' ''missing.srt'' = Inl TerminalException"
    by code_simp
  then have all: "\<forall>i<length [''a.wav'']. \<exists>e.
      sample_result demo_media ([''a.wav''] ! i) ([''missing.srt''] ! i) = Inl e"
    by simp
  show ?thesis
    using C3_no_guard_for_zero_survivors [OF len pool all, of "[] :: int log" demo_numeric demo_network
        "''m''" "''w''" "''l''" "''d''" 1 "''t.log''" False demo_run] len pool failed
    by simp
qed

section \<open>The joint permutation\<close>

lemma chunk_of_concat:
  assumes "\<forall>x\<in>set xss. length x = k" and "i < length xss"
  shows "take k (drop (i * k) (concat xss)) = xss ! i"
  using assms
proof (induction xss arbitrary: i)
  case Nil
  then show ?case by simp
next
  case (Cons x xss)
  have lx: "length x = k" and rest: "\<forall>y\<in>set xss. length y = k"
    using Cons.prems(1) by simp_all
  show ?case
  proof (cases i)
    case 0
    then show ?thesis using lx by simp
  next
    case (Suc j)
    then have "j < length xss" using Cons.prems(2) by simp
    then have "take k (drop (j * k) (concat xss)) = xss ! j"
      using Cons.IH [OF rest] by simp
    moreover have "drop (i * k) (concat (x # xss)) = drop (j * k) (concat xss)"
      using lx Suc by simp
    ultimately show ?thesis using Suc by simp
  qed
qed

lemma length_row:
  assumes "well_formed a" and "shape a = n # s" and "i < n"
  shows "length (row a i) = prod_list s"
proof -
  have "Suc i * prod_list s \<le> n * prod_list s"
    using assms(3) by (intro mult_le_mono1) simp
  then show ?thesis
    using assms(1,2) by (simp add: row_def row_size_def well_formed_def)
qed

lemma take_rows_rows:
  assumes "well_formed a" and "shape a = n # s" and "\<forall>i\<in>set idx. i < n"
  shows "\<exists>b. take_rows a idx = Inr b \<and> shape b = length idx # s \<and> well_formed b \<and>
    (\<forall>i<length idx. row b i = row a (idx ! i)) \<and> samples b = map (row a) idx"
proof -
  define xss where "xss = map (row a) idx"
  define b where "b = \<lparr>shape = length idx # s, flat = concat xss\<rparr>"
  have in_range: "\<not> list_ex (\<lambda>i. n \<le> i) idx"
    using assms(3) by (auto simp add: list_ex_iff)
  have taken: "take_rows a idx = Inr b"
    using assms(2) in_range by (simp add: take_rows_def b_def xss_def)
  have lens: "\<forall>x\<in>set xss. length x = prod_list s"
  proof
    fix x
    assume "x \<in> set xss"
    then obtain i where "i \<in> set idx" and "x = row a i"
      by (auto simp add: xss_def)
    then show "length x = prod_list s"
      using length_row [OF assms(1,2), of i] assms(3) by simp
  qed
  have len_xss: "length xss = length idx"
    by (simp add: xss_def)
  have row_b: "row b i = take (prod_list s) (drop (i * prod_list s) (concat xss))" for i
    by (simp add: row_def row_size_def b_def)
  have rows: "row b i = row a (idx ! i)" if "i < length idx" for i
  proof -
    have "row b i = xss ! i"
      using chunk_of_concat [OF lens, of i] that len_xss row_b by simp
    then show ?thesis
      using that by (simp add: xss_def)
  qed
  have "length (concat ys) = length ys * k" if "\<forall>y\<in>set ys. length y = k"
    for ys :: "'a list list" and k
    using that by (induction ys) simp_all
  from this [OF lens] have wf: "well_formed b"
    by (simp add: well_formed_def b_def len_xss)
  have same: "samples b = map (row a) idx"
  proof (rule nth_equalityI)
    show "length (samples b) = length (map (row a) idx)"
      by (simp add: samples_def b_def)
  next
    fix i
    assume "i < length (samples b)"
    then have i: "i < length idx"
      by (simp add: samples_def b_def)
    have "samples b ! i = row b i"
      using i by (simp add: samples_def b_def)
    then show "samples b ! i = map (row a) idx ! i"
      using rows [OF i] i by simp
  qed
  have shape_b: "shape b = length idx # s"
    by (simp add: b_def)
  show ?thesis
    using taken shape_b wf rows same by blast
qed



section \<open>The files and the calls of a run\<close>

lemma finish_files:
  "files (snd (finish k network model_dir model_filepath weights_filepath val_loss val_acc st)) =
   files st"
  by (simp add: finish_def say_def called_def Let_def split: sum.splits option.splits)

lemma finish_calls:
  "calls (snd (finish k network model_dir model_filepath weights_filepath val_loss val_acc st)) =
   calls st @
   (if val_loss = [] \<or> val_acc = [] then []
    else [Save_model_and_weights network model_filepath weights_filepath
            (model_dir @ ''/combined.hdf5'')])"
  by (simp add: finish_def say_def called_def Let_def py_min_def py_max_def
      split: sum.splits option.splits list.splits)

lemma fit_fresh_files:
  assumes "creatable h (training_dump_dir @ ''/training_dump.hdf5'')"
  shows "files (snd (fit_fresh h f k train_data labels model_dir weights_dir logs_dir
                       training_dump_dir epochs training_log st)) =
    (files st)(training_dump_dir @ ''/training_dump.hdf5'' \<mapsto>
       [''train_data'' \<mapsto> train_data, ''labels'' \<mapsto> labels])"
  using assms
  by (simp add: fit_fresh_def Let_def finish_files say_def called_def
      split: sum.splits prod.splits)

lemma fit_fresh_calls:
  assumes "creatable h (training_dump_dir @ ''/training_dump.hdf5'')"
    and "prepare f train_data labels = Inr (train_data', labels', d1, d2)"
  shows "calls (snd (fit_fresh h f k train_data labels model_dir weights_dir logs_dir
                       training_dump_dir epochs training_log st)) =
    calls st @
    Get_lstm (d1, d2) #
    (case get_lstm k (d1, d2) of
       Inl e \<Rightarrow> []
     | Inr network \<Rightarrow>
         Fit_and_get_history network train_data' labels' (model_dir @ ''/model.hdf5'')
           (weights_dir @ ''/weights.hdf5'') logs_dir epochs training_log False #
         (case fit_and_get_history k network train_data' labels' (model_dir @ ''/model.hdf5'')
                 (weights_dir @ ''/weights.hdf5'') logs_dir epochs training_log False of
            Inl e \<Rightarrow> []
          | Inr (val_loss, val_acc) \<Rightarrow>
              if val_loss = [] \<or> val_acc = [] then []
              else [Save_model_and_weights network (model_dir @ ''/model.hdf5'')
                      (weights_dir @ ''/weights.hdf5'') (model_dir @ ''/combined.hdf5'')]))"
  using assms
  by (simp add: fit_fresh_def Let_def finish_calls say_def called_def
      split: sum.splits prod.splits)

lemma fit_fresh_from_scratch:
  "list_all from_scratch_call
     (drop (length (calls st))
        (calls (snd (fit_fresh h f k train_data labels model_dir weights_dir logs_dir
                       training_dump_dir epochs training_log st))))"
  by (simp add: fit_fresh_def Let_def finish_calls say_def called_def
      split: sum.splits prod.splits)

lemma train_fresh_from_scratch:
  "list_all from_scratch_call
     (new_calls st
        (snd (train_fresh h c f k av sub model_dir weights_dir logs_dir training_dump_dir
                epochs training_log st)))"
proof (cases "extract_data_and_label_from_avs h c av sub (logs st)")
  case (Pair r lg)
  show ?thesis
  proof (cases r)
    case (Inl e)
    then show ?thesis
      using Pair by (simp add: train_fresh_def new_calls_def)
  next
    case (Inr xy)
    then show ?thesis
      using Pair
        fit_fresh_from_scratch [of "st\<lparr>logs := lg\<rparr>" h f k "fst xy" "snd xy" model_dir
          weights_dir logs_dir training_dump_dir epochs training_log]
      by (cases xy) (simp add: train_fresh_def new_calls_def)
  qed
qed

section \<open>The dump of a fresh-extraction run\<close>

text \<open>
  The three paths \<open>train\<close> hands to the network's operations (the model file, the weights
  file and the combined file) differ from the dump's path, whatever the directories are.
\<close>

lemma dump_path_apart:
  "training_dump_dir @ ''/training_dump.hdf5'' \<noteq> model_dir @ ''/model.hdf5'' \<and>
   training_dump_dir @ ''/training_dump.hdf5'' \<noteq> weights_dir @ ''/weights.hdf5'' \<and>
   training_dump_dir @ ''/training_dump.hdf5'' \<noteq> model_dir @ ''/combined.hdf5''"
proof -
  have dump: "take 6 (rev (training_dump_dir @ ''/training_dump.hdf5'')) = ''5fdh.p''"
    by simp
  have model: "take 6 (rev (model_dir @ ''/model.hdf5'')) = ''5fdh.l''"
    by simp
  have weights: "take 6 (rev (weights_dir @ ''/weights.hdf5'')) = ''5fdh.s''"
    by simp
  have combined: "take 6 (rev (model_dir @ ''/combined.hdf5'')) = ''5fdh.d''"
    by simp
  have "training_dump_dir @ ''/training_dump.hdf5'' \<noteq> model_dir @ ''/model.hdf5''"
  proof
    assume "training_dump_dir @ ''/training_dump.hdf5'' = model_dir @ ''/model.hdf5''"
    then have "''5fdh.p'' = ''5fdh.l''"
      using dump model by (simp only:)
    then show False by simp
  qed
  moreover have "training_dump_dir @ ''/training_dump.hdf5'' \<noteq> weights_dir @ ''/weights.hdf5''"
  proof
    assume "training_dump_dir @ ''/training_dump.hdf5'' = weights_dir @ ''/weights.hdf5''"
    then have "''5fdh.p'' = ''5fdh.s''"
      using dump weights by (simp only:)
    then show False by simp
  qed
  moreover have "training_dump_dir @ ''/training_dump.hdf5'' \<noteq> model_dir @ ''/combined.hdf5''"
  proof
    assume "training_dump_dir @ ''/training_dump.hdf5'' = model_dir @ ''/combined.hdf5''"
    then have "''5fdh.p'' = ''5fdh.d''"
      using dump combined by (simp only:)
    then show False by simp
  qed
  ultimately show ?thesis by simp
qed

text \<open>
  C7: on a fresh-extraction run in which the coordinator returns and the dump file can be
  created, the dump at \<^verbatim>\<open>training_dump_dir/training_dump.hdf5\<close> holds, when \<open>train\<close> ends
  (normally or by an exception of a later step), exactly the two datasets the coordinator
  returned, whatever the files held before and whatever permutation, reorientation and
  centering did afterwards; \<open>train\<close> itself writes no other file.
\<close>

theorem C7_dump_holds_raw_result:
  assumes "extract_data_and_label_from_avs h c av sub (logs st) = (Inr (train_data, labels), lg)"
    and "creatable h (training_dump_dir @ ''/training_dump.hdf5'')"
  shows "files (snd (train h c f k (Some av) (Some sub) model_dir weights_dir logs_dir
                       training_dump_dir epochs training_log resume st)) =
    (files st)(training_dump_dir @ ''/training_dump.hdf5'' \<mapsto>
       [''train_data'' \<mapsto> train_data, ''labels'' \<mapsto> labels])"
  using assms
    fit_fresh_files [OF assms(2), of f k train_data labels model_dir weights_dir logs_dir epochs
      training_log "st\<lparr>logs := lg\<rparr>"]
  by (simp add: train_def decide_source_def train_fresh_def)

theorem C7_dump_holds_raw_result_witness:
  "extract_data_and_label_from_avs demo_host demo_media [''a.wav'', ''bad.mp4'', ''cc.mkv'']
     [''a.srt'', ''b.srt'', ''c.srt''] (logs demo_dump_run) =
   (Inr (\<lparr>shape = [2, 2, 3], flat = [5, 6, 7, 8, 9, 10, 6, 7, 8, 9, 10, 11]\<rparr>,
         \<lparr>shape = [2], flat = [5, 6]\<rparr>),
    [(ERROR, ExceptionStacktrace UnsupportedFormatException), (DEBUG, AudioExtracted),
     (DEBUG, DataAndLabelsExtracted)]) \<and>
   creatable demo_host ''d/training_dump.hdf5'' \<and>
   files demo_dump_run ''d/training_dump.hdf5'' = Some demo_dump \<and>
   files (snd (train demo_host demo_media demo_numeric demo_network
                 (Some [''a.wav'', ''bad.mp4'', ''cc.mkv'']) (Some [''a.srt'', ''b.srt'', ''c.srt''])
                 ''m'' ''w'' ''l'' ''d'' 1 ''t.log'' True demo_dump_run))
     ''d/training_dump.hdf5'' =
   Some [''train_data'' \<mapsto> \<lparr>shape = [2, 2, 3], flat = [5, 6, 7, 8, 9, 10, 6, 7, 8, 9, 10, 11]\<rparr>,
         ''labels'' \<mapsto> \<lparr>shape = [2], flat = [5, 6]\<rparr>]"
proof -
  have lg: "logs demo_dump_run = []"
    by (simp add: demo_dump_run_def)
  have "extract_data_and_label_from_avs demo_host demo_media [''a.wav'', ''bad.mp4'', ''cc.mkv'']
     [''a.srt'', ''b.srt'', ''c.srt''] ([] :: int log) =
   (Inr (\<lparr>shape = [2, 2, 3], flat = [5, 6, 7, 8, 9, 10, 6, 7, 8, 9, 10, 11]\<rparr>,
         \<lparr>shape = [2], flat = [5, 6]\<rparr>),
    [(ERROR, ExceptionStacktrace UnsupportedFormatException), (DEBUG, AudioExtracted),
     (DEBUG, DataAndLabelsExtracted)])"
    by code_simp
  then have extracted: "extract_data_and_label_from_avs demo_host demo_media
     [''a.wav'', ''bad.mp4'', ''cc.mkv''] [''a.srt'', ''b.srt'', ''c.srt''] (logs demo_dump_run) =
   (Inr (\<lparr>shape = [2, 2, 3], flat = [5, 6, 7, 8, 9, 10, 6, 7, 8, 9, 10, 11]\<rparr>,
         \<lparr>shape = [2], flat = [5, 6]\<rparr>),
    [(ERROR, ExceptionStacktrace UnsupportedFormatException), (DEBUG, AudioExtracted),
     (DEBUG, DataAndLabelsExtracted)])"
    by (simp only: lg)
  have creatable: "creatable demo_host (''d'' @ ''/training_dump.hdf5'')"
    by (simp add: demo_host_def)
  have before: "files demo_dump_run ''d/training_dump.hdf5'' = Some demo_dump"
    by (simp add: demo_dump_run_def)
  show ?thesis
    using C7_dump_holds_raw_result [OF extracted creatable, of demo_numeric demo_network
        "''m''" "''w''" "''l''" 1 "''t.log''" True] extracted creatable before
    by simp
qed

section \<open>The shape handed to the network\<close>

lemma rot90_each_shapes:
  assumes "\<forall>v\<in>set vals. shape v = a # b # rest"
  shows "\<exists>rs. rot90_each vals = Inr rs \<and> length rs = length vals \<and>
    (\<forall>r\<in>set rs. shape r = b # a # rest)"
  using assms
proof (induction vals)
  case Nil
  then show ?case by simp
next
  case (Cons v vals)
  then obtain rs where rs: "rot90_each vals = Inr rs" "length rs = length vals"
    "\<forall>r\<in>set rs. shape r = b # a # rest"
    by auto
  have "shape v = a # b # rest"
    using Cons.prems by simp
  then obtain r where r: "np_rot90 v = Inr r" "shape r = b # a # rest"
    by (simp add: np_rot90_def)
  show ?case
    using rs r by simp
qed

lemma center_shape:
  assumes "shape a = n # s"
  shows "\<exists>b. center f a = Inr b \<and> shape b = shape a"
  using assms by (simp add: center_def np_mean0_def subtract_rows_def)

text \<open>
  For raw features of shape \<open>(M, a, b, ...)\<close> with \<open>M > 0\<close> and as many labels, lines 116
  to 125 succeed, the transformed features have shape \<open>(M, b, a, ...)\<close> and the input
  shape is \<open>(b, a)\<close>.
\<close>

lemma prepare_shape:
  assumes "well_formed train_data" and "well_formed labels"
    and "shape train_data = M # a # b # rest" and "shape labels = M # s2" and "0 < M"
    and "mset (permutation f M) = mset [0..<M]"
  shows "\<exists>train_data' labels'. prepare f train_data labels = Inr (train_data', labels', b, a) \<and>
    shape train_data' = M # b # a # rest \<and> shape labels' = shape labels"
proof -
  let ?rand = "permutation f M"
  have "set ?rand = set [0..<M]"
    using assms(6) by (metis set_mset_mset)
  then have bound: "\<forall>i\<in>set ?rand. i < M"
    by simp
  have len: "length ?rand = M"
    using assms(6) by (metis size_mset length_upt diff_zero)
  obtain td1 where td1: "take_rows train_data ?rand = Inr td1" "shape td1 = M # a # b # rest"
    using take_rows_rows [OF assms(1,3) bound] len by auto
  obtain lb1 where lb1: "take_rows labels ?rand = Inr lb1" "shape lb1 = M # s2"
    using take_rows_rows [OF assms(2,4) bound] len by auto
  have permuted: "permute f train_data labels = Inr (td1, lb1)"
    using td1(1) lb1(1) assms(4) by (simp add: permute_def py_len_def)
  have vals: "items td1 = Inr (map (item td1) [0..<M])"
    using td1(2) by (simp add: items_def)
  have "\<forall>v\<in>set (map (item td1) [0..<M]). shape v = a # b # rest"
    using td1(2) by (simp add: item_def)
  then obtain rs where rs: "rot90_each (map (item td1) [0..<M]) = Inr rs" "length rs = M"
    "\<forall>r\<in>set rs. shape r = b # a # rest"
    using rot90_each_shapes [of "map (item td1) [0..<M]" a b rest] by auto
  obtain r rs' where cons: "rs = r # rs'"
    using rs(2) assms(5) by (cases rs) auto
  have stacked: "shape (np_array rs) = M # b # a # rest"
    using rs(2,3) cons by (simp add: np_array_def)
  have oriented: "reorient td1 = Inr (np_array rs)"
    using vals rs(1) by (simp add: reorient_def)
  obtain td3 where td3: "center f (np_array rs) = Inr td3" "shape td3 = M # b # a # rest"
    using center_shape [OF stacked, of f] stacked by auto
  have "prepare f train_data labels = Inr (td3, lb1, b, a)"
    using permuted oriented td3 by (simp add: prepare_def tuple_get_def)
  then show ?thesis
    using td3(2) lb1(2) assms(4) by simp
qed

section \<open>The fresh-extraction branch and the resume flag\<close>

text \<open>
  C9: on the fresh-extraction branch the result of \<open>train\<close> does not depend on
  \<open>resume\<close>; no call loads a saved model or fits with the generator, and every fit is
  called with the flag \<^verbatim>\<open>False\<close>. When the coordinator returns, the dump can be created and
  lines 116 to 125 succeed, the calls are: \<^verbatim>\<open>get_lstm\<close> with dimensions 1 and 2 of the
  transformed feature array, then \<^verbatim>\<open>fit_and_get_history\<close> on the network it returned, with
  the transformed arrays and the flag \<^verbatim>\<open>False\<close>, then the save.
\<close>

theorem C9_fresh_extraction_ignores_resume:
  assumes "extract_data_and_label_from_avs h c av sub (logs st) = (Inr (train_data, labels), lg)"
    and "creatable h (training_dump_dir @ ''/training_dump.hdf5'')"
    and "prepare f train_data labels = Inr (train_data', labels', d1, d2)"
  shows "train h c f k (Some av) (Some sub) model_dir weights_dir logs_dir training_dump_dir
      epochs training_log resume st =
    train h c f k (Some av) (Some sub) model_dir weights_dir logs_dir training_dump_dir
      epochs training_log (\<not> resume) st \<and>
    list_all from_scratch_call
      (new_calls st (snd (train h c f k (Some av) (Some sub) model_dir weights_dir logs_dir
                            training_dump_dir epochs training_log resume st))) \<and>
    tuple_get (shape train_data') 1 = Inr d1 \<and> tuple_get (shape train_data') 2 = Inr d2 \<and>
    new_calls st (snd (train h c f k (Some av) (Some sub) model_dir weights_dir logs_dir
                         training_dump_dir epochs training_log resume st)) =
    Get_lstm (d1, d2) #
    (case get_lstm k (d1, d2) of
       Inl e \<Rightarrow> []
     | Inr network \<Rightarrow>
         Fit_and_get_history network train_data' labels' (model_dir @ ''/model.hdf5'')
           (weights_dir @ ''/weights.hdf5'') logs_dir epochs training_log False #
         (case fit_and_get_history k network train_data' labels' (model_dir @ ''/model.hdf5'')
                 (weights_dir @ ''/weights.hdf5'') logs_dir epochs training_log False of
            Inl e \<Rightarrow> []
          | Inr (val_loss, val_acc) \<Rightarrow>
              if val_loss = [] \<or> val_acc = [] then []
              else [Save_model_and_weights network (model_dir @ ''/model.hdf5'')
                      (weights_dir @ ''/weights.hdf5'') (model_dir @ ''/combined.hdf5'')]))"
proof -
  have fresh: "train h c f k (Some av) (Some sub) model_dir weights_dir logs_dir
      training_dump_dir epochs training_log r st =
    train_fresh h c f k av sub model_dir weights_dir logs_dir training_dump_dir epochs
      training_log st" for r
    by (simp add: train_def decide_source_def)
  have dims: "tuple_get (shape train_data') 1 = Inr d1 \<and> tuple_get (shape train_data') 2 = Inr d2"
    using assms(3) by (auto simp add: prepare_def split: sum.splits prod.splits)
  have run: "snd (train_fresh h c f k av sub model_dir weights_dir logs_dir training_dump_dir
        epochs training_log st) =
      snd (fit_fresh h f k train_data labels model_dir weights_dir logs_dir training_dump_dir
        epochs training_log (st\<lparr>logs := lg\<rparr>))"
    using assms(1) by (simp add: train_fresh_def)
  show ?thesis
    using dims train_fresh_from_scratch [of st h c f k av sub model_dir weights_dir logs_dir
        training_dump_dir epochs training_log]
      fit_fresh_calls [OF assms(2,3), of k model_dir weights_dir logs_dir epochs training_log
        "st\<lparr>logs := lg\<rparr>"]
    by (simp add: fresh run new_calls_def)
qed

theorem C9_fresh_extraction_ignores_resume_witness:
  "prepare demo_numeric \<lparr>shape = [2, 2, 3], flat = [5, 6, 7, 8, 9, 10, 6, 7, 8, 9, 10, 11]\<rparr>
     \<lparr>shape = [2], flat = [5, 6]\<rparr> =
   Inr (\<lparr>shape = [2, 3, 2], flat = [1, 1, 1, 1, 1, 1, 0, 0, 0, 0, 0, 0]\<rparr>,
        \<lparr>shape = [2], flat = [6, 5]\<rparr>, 3, 2) \<and>
   new_calls demo_run
     (snd (train demo_host demo_media demo_numeric demo_network
             (Some [''a.wav'', ''bad.mp4'', ''cc.mkv'']) (Some [''a.srt'', ''b.srt'', ''c.srt''])
             ''m'' ''w'' ''l'' ''d'' 1 ''t.log'' True demo_run)) =
   [Get_lstm (3, 2),
    Fit_and_get_history 5 \<lparr>shape = [2, 3, 2], flat = [1, 1, 1, 1, 1, 1, 0, 0, 0, 0, 0, 0]\<rparr>
      \<lparr>shape = [2], flat = [6, 5]\<rparr> ''m/model.hdf5'' ''w/weights.hdf5'' ''l'' 1 ''t.log'' False,
    Save_model_and_weights 5 ''m/model.hdf5'' ''w/weights.hdf5'' ''m/combined.hdf5'']"
proof -
  have lg: "logs demo_run = []"
    by (simp add: demo_run_def)
  have "extract_data_and_label_from_avs demo_host demo_media [''a.wav'', ''bad.mp4'', ''cc.mkv'']
     [''a.srt'', ''b.srt'', ''c.srt''] ([] :: int log) =
   (Inr (\<lparr>shape = [2, 2, 3], flat = [5, 6, 7, 8, 9, 10, 6, 7, 8, 9, 10, 11]\<rparr>,
         \<lparr>shape = [2], flat = [5, 6]\<rparr>),
    [(ERROR, ExceptionStacktrace UnsupportedFormatException), (DEBUG, AudioExtracted),
     (DEBUG, DataAndLabelsExtracted)])"
    by code_simp
  then have extracted: "extract_data_and_label_from_avs demo_host demo_media
     [''a.wav'', ''bad.mp4'', ''cc.mkv''] [''a.srt'', ''b.srt'', ''c.srt''] (logs demo_run) =
   (Inr (\<lparr>shape = [2, 2, 3], flat = [5, 6, 7, 8, 9, 10, 6, 7, 8, 9, 10, 11]\<rparr>,
         \<lparr>shape = [2], flat = [5, 6]\<rparr>),
    [(ERROR, ExceptionStacktrace UnsupportedFormatException), (DEBUG, AudioExtracted),
     (DEBUG, DataAndLabelsExtracted)])"
    by (simp only: lg)
  have creatable: "creatable demo_host (''d'' @ ''/training_dump.hdf5'')"
    by (simp add: demo_host_def)
  have prepared: "prepare demo_numeric
      \<lparr>shape = [2, 2, 3], flat = [5, 6, 7, 8, 9, 10, 6, 7, 8, 9, 10, 11]\<rparr>
      \<lparr>shape = [2], flat = [5, 6]\<rparr> =
    Inr (\<lparr>shape = [2, 3, 2], flat = [1, 1, 1, 1, 1, 1, 0, 0, 0, 0, 0, 0]\<rparr>,
         \<lparr>shape = [2], flat = [6, 5]\<rparr>, 3, 2)"
    by code_simp
  show ?thesis
    using C9_fresh_extraction_ignores_resume [OF extracted creatable prepared, of demo_network
        "''m''" "''w''" "''l''" 1 "''t.log''" True, THEN conjunct2, THEN conjunct2] prepared
    by (simp add: demo_network_def)
qed

section \<open>The resume-from-dump branch\<close>

lemma dump_network_calls:
  "calls (snd (dump_network k resume m w td st)) =
   calls st @
   (if resume then [Load_model_and_weights m w]
    else (case tuple_get (shape td) 2 of
            Inl e \<Rightarrow> []
          | Inr d2 \<Rightarrow>
              (case tuple_get (shape td) 1 of Inl e \<Rightarrow> [] | Inr d1 \<Rightarrow> [Get_lstm (d2, d1)])))"
  by (simp add: dump_network_def say_def called_def split: sum.splits)

lemma dump_network_result:
  "fst (dump_network k resume m w td st) =
   (if resume then load_model_and_weights k m w
    else (case tuple_get (shape td) 2 of
            Inl e \<Rightarrow> Inl e
          | Inr d2 \<Rightarrow>
              (case tuple_get (shape td) 1 of Inl e \<Rightarrow> Inl e | Inr d1 \<Rightarrow> get_lstm k (d2, d1))))"
  by (simp add: dump_network_def split: sum.splits)

lemma train_from_dump_calls:
  assumes "files st (training_dump_dir @ ''/training_dump.hdf5'') = Some hf"
    and "hf ''train_data'' = Some td" and "hf ''labels'' = Some lb"
  shows "calls (snd (train_from_dump k model_dir weights_dir logs_dir training_dump_dir epochs
                       training_log resume st)) =
    calls (snd (dump_network k resume (model_dir @ ''/model.hdf5'')
                  (weights_dir @ ''/weights.hdf5'') td st)) @
    (case fst (dump_network k resume (model_dir @ ''/model.hdf5'')
                 (weights_dir @ ''/weights.hdf5'') td st) of
       Inl e \<Rightarrow> []
     | Inr network \<Rightarrow>
         Fit_with_generator network td lb (model_dir @ ''/model.hdf5'')
           (weights_dir @ ''/weights.hdf5'') logs_dir epochs training_log resume #
         (case fit_with_generator k network td lb (model_dir @ ''/model.hdf5'')
                 (weights_dir @ ''/weights.hdf5'') logs_dir epochs training_log resume of
            Inl e \<Rightarrow> []
          | Inr (val_loss, val_acc) \<Rightarrow>
              if val_loss = [] \<or> val_acc = [] then []
              else [Save_model_and_weights network (model_dir @ ''/model.hdf5'')
                      (weights_dir @ ''/weights.hdf5'') (model_dir @ ''/combined.hdf5'')]))"
proof -
  let ?m = "model_dir @ ''/model.hdf5''" and ?w = "weights_dir @ ''/weights.hdf5''"
  let ?st1 = "say DEBUG ResumeTrainingOnDataDump st"
  obtain made st2 where made: "dump_network k resume ?m ?w td ?st1 = (made, st2)"
    by (cases "dump_network k resume ?m ?w td ?st1")
  have result: "fst (dump_network k resume ?m ?w td st) = made"
    using made dump_network_result [of k resume ?m ?w td ?st1]
      dump_network_result [of k resume ?m ?w td st]
    by simp
  have recorded: "calls (snd (dump_network k resume ?m ?w td st)) = calls st2"
    using made dump_network_calls [of k resume ?m ?w td ?st1]
      dump_network_calls [of k resume ?m ?w td st]
    by (simp add: say_def)
  have opened: "files ?st1 (training_dump_dir @ ''/training_dump.hdf5'') = Some hf"
    using assms(1) by (simp add: say_def)
  show ?thesis
  proof (cases made)
    case (Inl e)
    then show ?thesis
      using opened assms(2,3) made
      by (simp add: train_from_dump_def Let_def h5_get_def result recorded)
  next
    case (Inr network)
    then show ?thesis
      using opened assms(2,3) made
      by (simp add: train_from_dump_def Let_def h5_get_def result recorded called_def
          finish_calls split: sum.splits prod.splits)
  qed
qed

text \<open>
  C8: on the resume-from-dump branch with a readable dump, the calls on the network are
  these. With \<open>resume\<close>: the saved model and weights are loaded from the two paths, the
  loaded network is fitted with the generator on the dump's two datasets and the flag
  \<^verbatim>\<open>True\<close>, and saved; \<^verbatim>\<open>get_lstm\<close> is never called. Without \<open>resume\<close>: \<^verbatim>\<open>get_lstm\<close> is called
  with dimensions 2 and 1 of the dump's feature array, the network it returns is fitted
  with the flag \<^verbatim>\<open>False\<close>, and saved; no saved model is loaded.
\<close>

theorem C8_resume_from_dump:
  assumes "decide_source av sub = ResumeFromDump"
    and "files st (training_dump_dir @ ''/training_dump.hdf5'') = Some hf"
    and "hf ''train_data'' = Some td" and "hf ''labels'' = Some lb"
  shows "new_calls st (snd (train h c f k av sub model_dir weights_dir logs_dir
                              training_dump_dir epochs training_log resume st)) =
    (let model_filepath = model_dir @ ''/model.hdf5'';
         weights_filepath = weights_dir @ ''/weights.hdf5'';
         fit_and_save = (\<lambda>made.
           case made of
             Inl e \<Rightarrow> []
           | Inr network \<Rightarrow>
               Fit_with_generator network td lb model_filepath weights_filepath logs_dir
                 epochs training_log resume #
               (case fit_with_generator k network td lb model_filepath weights_filepath
                       logs_dir epochs training_log resume of
                  Inl e \<Rightarrow> []
                | Inr (val_loss, val_acc) \<Rightarrow>
                    if val_loss = [] \<or> val_acc = [] then []
                    else [Save_model_and_weights network model_filepath weights_filepath
                            (model_dir @ ''/combined.hdf5'')]))
     in if resume then
          Load_model_and_weights model_filepath weights_filepath #
          fit_and_save (load_model_and_weights k model_filepath weights_filepath)
        else
          (case tuple_get (shape td) 2 of
             Inl e \<Rightarrow> []
           | Inr d2 \<Rightarrow>
               (case tuple_get (shape td) 1 of
                  Inl e \<Rightarrow> []
                | Inr d1 \<Rightarrow> Get_lstm (d2, d1) # fit_and_save (get_lstm k (d2, d1))))) \<and>
    (resume \<longrightarrow>
       (\<forall>d. Get_lstm d \<notin> set (new_calls st (snd (train h c f k av sub model_dir weights_dir
                                  logs_dir training_dump_dir epochs training_log resume st))))) \<and>
    (\<not> resume \<longrightarrow>
       (\<forall>m w. Load_model_and_weights m w \<notin>
          set (new_calls st (snd (train h c f k av sub model_dir weights_dir logs_dir
                                    training_dump_dir epochs training_log resume st)))))"
    (is "?made = ?expected \<and> ?never_built \<and> ?never_loaded")
proof -
  have dump: "train h c f k av sub model_dir weights_dir logs_dir training_dump_dir epochs
      training_log resume st =
    train_from_dump k model_dir weights_dir logs_dir training_dump_dir epochs training_log
      resume st"
    using assms(1) by (simp add: train_def)
  have made: "?made = ?expected"
    unfolding dump new_calls_def train_from_dump_calls [OF assms(2,3,4)]
    by (simp add: dump_network_calls dump_network_result Let_def split: sum.splits)
  have never_built: ?never_built
    unfolding made by (auto simp add: Let_def split: sum.splits prod.splits if_splits)
  have never_loaded: ?never_loaded
    unfolding made by (auto simp add: Let_def split: sum.splits prod.splits if_splits)
  show ?thesis
    using made never_built never_loaded by (intro conjI)
qed

theorem C8_resume_from_dump_witness:
  "decide_source None None = ResumeFromDump \<and>
   files demo_dump_run ''d/training_dump.hdf5'' = Some demo_dump \<and>
   new_calls demo_dump_run
     (snd (train demo_host demo_media demo_numeric demo_network None None
             ''m'' ''w'' ''l'' ''d'' 1 ''t.log'' True demo_dump_run)) =
   [Load_model_and_weights ''m/model.hdf5'' ''w/weights.hdf5'',
    Fit_with_generator 7
      \<lparr>shape = [2, 2, 3], flat = [1, 2, 3, 4, 5, 6, 7, 8, 9, 10, 11, 12]\<rparr>
      \<lparr>shape = [2], flat = [0, 1]\<rparr> ''m/model.hdf5'' ''w/weights.hdf5'' ''l'' 1 ''t.log'' True,
    Save_model_and_weights 7 ''m/model.hdf5'' ''w/weights.hdf5'' ''m/combined.hdf5''] \<and>
   new_calls demo_dump_run
     (snd (train demo_host demo_media demo_numeric demo_network None None
             ''m'' ''w'' ''l'' ''d'' 1 ''t.log'' False demo_dump_run)) =
   [Get_lstm (3, 2),
    Fit_with_generator 5
      \<lparr>shape = [2, 2, 3], flat = [1, 2, 3, 4, 5, 6, 7, 8, 9, 10, 11, 12]\<rparr>
      \<lparr>shape = [2], flat = [0, 1]\<rparr> ''m/model.hdf5'' ''w/weights.hdf5'' ''l'' 1 ''t.log'' False,
    Save_model_and_weights 5 ''m/model.hdf5'' ''w/weights.hdf5'' ''m/combined.hdf5'']"
proof -
  have source: "decide_source None None = ResumeFromDump"
    by (simp add: decide_source_def)
  have opened: "files demo_dump_run (''d'' @ ''/training_dump.hdf5'') = Some demo_dump"
    by (simp add: demo_dump_run_def)
  have features: "demo_dump ''train_data'' =
      Some \<lparr>shape = [2, 2, 3], flat = [1, 2, 3, 4, 5, 6, 7, 8, 9, 10, 11, 12]\<rparr>"
    and targets: "demo_dump ''labels'' = Some \<lparr>shape = [2], flat = [0, 1]\<rparr>"
    by (simp_all add: demo_dump_def)
  show ?thesis
    using C8_resume_from_dump [OF source opened features targets, of demo_host demo_media
        demo_numeric demo_network "''m''" "''w''" "''l''" 1 "''t.log''" True, THEN conjunct1]
      C8_resume_from_dump [OF source opened features targets, of demo_host demo_media
        demo_numeric demo_network "''m''" "''w''" "''l''" 1 "''t.log''" False, THEN conjunct1]
      source opened
    by (simp add: demo_network_def tuple_get_def Let_def)
qed

end
